theory Spec2Isabelle
  imports Complex_Main
begin

section \<open>Numbers of \<open>bank_account.py\<close>\<close>

text \<open>
  The source accepts \<open>int\<close> and \<open>float\<close> arguments and checks the dynamic type with
  \<open>isinstance(amount, (int, float))\<close>; the balance itself is always a \<open>float\<close>. An \<open>int\<close> is
  unbounded. A \<open>float\<close> is a finite number, an infinity or NaN. A finite float lies
  strictly between \<open>- float_limit\<close> and \<open>float_limit\<close>: an exact result at or beyond
  \<open>2^1024 - 2^970\<close> is rounded to an infinity. Inside that range results are kept exact:
  the rounding of a result to 53 bits and the sign of zero are not part of this
  development.
\<close>

datatype pyfloat = Finite real | PosInf | NegInf | NaN

definition float_limit :: real where
  "float_limit = 2 ^ 1024 - 2 ^ 970"

definition fl :: "real \<Rightarrow> pyfloat" where
  "fl x = (if float_limit \<le> x then PosInf else if x \<le> - float_limit then NegInf else Finite x)"

fun fneg :: "pyfloat \<Rightarrow> pyfloat" where
  "fneg (Finite x) = Finite (- x)"
| "fneg PosInf = NegInf"
| "fneg NegInf = PosInf"
| "fneg NaN = NaN"

fun fadd :: "pyfloat \<Rightarrow> pyfloat \<Rightarrow> pyfloat" where
  "fadd (Finite x) (Finite y) = fl (x + y)"
| "fadd NaN b = NaN"
| "fadd a NaN = NaN"
| "fadd PosInf NegInf = NaN"
| "fadd NegInf PosInf = NaN"
| "fadd PosInf b = PosInf"
| "fadd a PosInf = PosInf"
| "fadd NegInf b = NegInf"
| "fadd a NegInf = NegInf"

definition fsub :: "pyfloat \<Rightarrow> pyfloat \<Rightarrow> pyfloat" where
  "fsub a b = fadd a (fneg b)"

text \<open>The comparisons \<open><\<close> and \<open><=\<close>: every comparison with NaN is false.\<close>

fun flt :: "pyfloat \<Rightarrow> pyfloat \<Rightarrow> bool" where
  "flt (Finite x) (Finite y) = (x < y)"
| "flt NaN b = False"
| "flt a NaN = False"
| "flt a NegInf = False"
| "flt NegInf b = True"
| "flt PosInf b = False"
| "flt a PosInf = True"

fun fle :: "pyfloat \<Rightarrow> pyfloat \<Rightarrow> bool" where
  "fle (Finite x) (Finite y) = (x \<le> y)"
| "fle NaN b = False"
| "fle a NaN = False"
| "fle NegInf b = True"
| "fle a PosInf = True"
| "fle a b = False"

text \<open>
  A Python argument: an \<open>int\<close>, a \<open>float\<close>, or an object of another type. \<open>num\<close> is the
  exact value of a number; Python compares an \<open>int\<close> with a \<open>float\<close> by exact value, without
  converting. \<open>to_float\<close> is \<open>float(x)\<close> and the conversion that \<open>float + int\<close>, \<open>float - int\<close>
  and the format \<open>:.2f\<close> apply to an \<open>int\<close>: it raises \<open>OverflowError\<close> for an \<open>int\<close> outside the
  range of a float.
\<close>

datatype pyval = PyInt int | PyFloat pyfloat | NonNum

fun is_number :: "pyval \<Rightarrow> bool" where
  "is_number (PyInt n) = True"
| "is_number (PyFloat f) = True"
| "is_number NonNum = False"

fun num :: "pyval \<Rightarrow> pyfloat" where
  "num (PyInt n) = Finite (of_int n)"
| "num (PyFloat f) = f"
| "num NonNum = NaN"

section \<open>Data model\<close>

text \<open>
  A history entry is the tuple \<open>(action, amount, resulting_balance[, other_account_number])\<close>;
  the optional fourth component is present for the two transfer entries only. The amount
  is the object the caller passed, the resulting balance is read from \<open>self._balance\<close>.
\<close>

type_synonym txn = "string \<times> pyval \<times> pyfloat \<times> int option"

record account =
  account_number :: int
  account_holder :: string
  balance :: pyfloat
  status :: string
  transactions :: "txn list"

text \<open>
  The exception hierarchy. The argument of \<open>InvalidAmountError\<close> is either the offending
  value or the text \<open>Balance cannot be negative: <value>\<close>; the message of
  \<open>InvalidAccountError\<close> is one of four texts, the last of which embeds the exception that
  \<open>from_string\<close> caught. \<open>ValueError\<close>, \<open>TypeError\<close> and \<open>OverflowError\<close> are the built-in
  exceptions of tuple unpacking and \<open>float\<close> of a string, of arithmetic on a non-number,
  and of converting an \<open>int\<close> that is too large.
\<close>

datatype amount_arg = Offending pyval | CannotBeNegative pyval

datatype error =
    InsufficientFundsError pyfloat pyval
  | InvalidAmountError amount_arg
  | InvalidAccountError account_msg
  | ValueError
  | TypeError
  | OverflowError
and account_msg =
    StatusMsg
  | NotActiveMsg int
  | TargetMsg
  | FailedToParse error

definition to_float :: "pyval \<Rightarrow> error + pyfloat" where
  "to_float v =
     (case v of
        PyInt n \<Rightarrow>
          if \<bar>real_of_int n\<bar> < float_limit then Inr (Finite (of_int n)) else Inl OverflowError
      | PyFloat f \<Rightarrow> Inr f
      | NonNum \<Rightarrow> Inl TypeError)"

text \<open>
  \<open>raise InsufficientFundsError(balance, amount)\<close>: the constructor formats both values
  with \<open>:.2f\<close> before the exception exists, so what propagates is the exception of the
  conversion when the amount does not convert.
\<close>

definition insufficient_funds :: "pyfloat \<Rightarrow> pyval \<Rightarrow> error" where
  "insufficient_funds b amount =
     (case to_float amount of
        Inl e \<Rightarrow> e
      | Inr _ \<Rightarrow> InsufficientFundsError b amount)"

section \<open>Validation helpers\<close>

definition validate_amount :: "pyval \<Rightarrow> error + bool" where
  "validate_amount amount =
     (if \<not> is_number amount then Inl (InvalidAmountError (Offending amount))
      else if fle (num amount) (Finite 0) then Inl (InvalidAmountError (Offending amount))
      else Inr True)"

definition ensure_active :: "account \<Rightarrow> error + unit" where
  "ensure_active a =
     (if status a \<noteq> ''active''
      then Inl (InvalidAccountError (NotActiveMsg (account_number a)))
      else Inr ())"

text \<open>\<open>balance + amount\<close>, \<open>balance - amount\<close> and \<open>amount > balance\<close>.\<close>

definition py_add :: "pyfloat \<Rightarrow> pyval \<Rightarrow> error + pyfloat" where
  "py_add b v = (case to_float v of Inl e \<Rightarrow> Inl e | Inr f \<Rightarrow> Inr (fadd b f))"

definition py_sub :: "pyfloat \<Rightarrow> pyval \<Rightarrow> error + pyfloat" where
  "py_sub b v = (case to_float v of Inl e \<Rightarrow> Inl e | Inr f \<Rightarrow> Inr (fsub b f))"

definition py_gt :: "pyval \<Rightarrow> pyfloat \<Rightarrow> error + bool" where
  "py_gt v b = (if is_number v then Inr (flt b (num v)) else Inl TypeError)"

section \<open>Construction\<close>

text \<open>
  \<open>BankAccount._account_counter\<close> is class-level state shared by all accounts. The
  constructor takes its current value and returns the value it leaves, together with the
  new object or the exception. The counter is incremented before \<open>float(initial_balance)\<close>
  is evaluated, so a conversion that raises leaves the counter incremented.
\<close>

definition init :: "int \<Rightarrow> string \<Rightarrow> pyval \<Rightarrow> string \<Rightarrow> int \<times> (error + account)" where
  "init counter holder initial_balance st =
     (if \<not> is_number initial_balance
      then (counter, Inl (InvalidAmountError (Offending initial_balance)))
      else if flt (num initial_balance) (Finite 0)
      then (counter, Inl (InvalidAmountError (CannotBeNegative initial_balance)))
      else if st \<noteq> ''active'' \<and> st \<noteq> ''inactive''
      then (counter, Inl (InvalidAccountError StatusMsg))
      else
        (case to_float initial_balance of
           Inl e \<Rightarrow> (counter + 1, Inl e)
         | Inr b \<Rightarrow>
             (counter + 1,
              Inr \<lparr>account_number = counter + 1, account_holder = holder, balance = b,
                   status = st,
                   transactions = [(''Account created'', PyFloat b, b, None)]\<rparr>)))"

definition from_balance :: "int \<Rightarrow> string \<Rightarrow> pyval \<Rightarrow> int \<times> (error + account)" where
  "from_balance counter holder initial_balance = init counter holder initial_balance ''active''"

section \<open>Property setters\<close>

definition set_balance :: "account \<Rightarrow> pyval \<Rightarrow> account \<times> (error + unit)" where
  "set_balance a new_value =
     (if \<not> is_number new_value then (a, Inl (InvalidAmountError (Offending new_value)))
      else if flt (num new_value) (Finite 0)
      then (a, Inl (InvalidAmountError (CannotBeNegative new_value)))
      else
        (case to_float new_value of
           Inl e \<Rightarrow> (a, Inl e)
         | Inr b \<Rightarrow> (a\<lparr>balance := b\<rparr>, Inr ())))"

definition set_status :: "account \<Rightarrow> string \<Rightarrow> account \<times> (error + unit)" where
  "set_status a v =
     (if v \<noteq> ''active'' \<and> v \<noteq> ''inactive''
      then (a, Inl (InvalidAccountError StatusMsg))
      else (a\<lparr>status := v\<rparr>, Inr ()))"

section \<open>Operations on one account\<close>

text \<open>
  Every method returns the object as the call leaves it together with the outcome:
  \<open>Inl\<close> the exception raised, \<open>Inr\<close> the value returned. A failing call therefore still
  shows the state it leaves behind.
\<close>

definition deposit :: "account \<Rightarrow> pyval \<Rightarrow> account \<times> (error + pyfloat)" where
  "deposit a amount =
     (case ensure_active a of
        Inl e \<Rightarrow> (a, Inl e)
      | Inr _ \<Rightarrow>
     (case validate_amount amount of
        Inl e \<Rightarrow> (a, Inl e)
      | Inr _ \<Rightarrow>
     (case py_add (balance a) amount of
        Inl e \<Rightarrow> (a, Inl e)
      | Inr b \<Rightarrow>
          (let a1 = a\<lparr>balance := b\<rparr>;
               a2 = a1\<lparr>transactions :=
                      transactions a1 @ [(''Deposit'', amount, balance a1, None)]\<rparr>
           in (a2, Inr (balance a2))))))"

definition withdraw :: "account \<Rightarrow> pyval \<Rightarrow> account \<times> (error + pyfloat)" where
  "withdraw a amount =
     (case ensure_active a of
        Inl e \<Rightarrow> (a, Inl e)
      | Inr _ \<Rightarrow>
     (case validate_amount amount of
        Inl e \<Rightarrow> (a, Inl e)
      | Inr _ \<Rightarrow>
     (case py_gt amount (balance a) of
        Inl e \<Rightarrow> (a, Inl e)
      | Inr exceeds \<Rightarrow>
          if exceeds then (a, Inl (insufficient_funds (balance a) amount))
          else
     (case py_sub (balance a) amount of
        Inl e \<Rightarrow> (a, Inl e)
      | Inr b \<Rightarrow>
          (let a1 = a\<lparr>balance := b\<rparr>;
               a2 = a1\<lparr>transactions :=
                      transactions a1 @ [(''Withdraw'', amount, balance a1, None)]\<rparr>
           in (a2, Inr (balance a2)))))))"

section \<open>Transfer between two objects\<close>

text \<open>
  \<open>transfer\<close> mutates two objects that may be the same one, so it works on a store that
  maps object references to objects. The target argument is any Python object: a
  reference to a \<open>BankAccount\<close> or something else.
\<close>

type_synonym ref = nat

type_synonym store = "ref \<Rightarrow> account"

datatype target = Obj ref | NotBankAccount

definition append_txn :: "store \<Rightarrow> ref \<Rightarrow> txn \<Rightarrow> store" where
  "append_txn s r t = s(r := (s r)\<lparr>transactions := transactions (s r) @ [t]\<rparr>)"

definition transfer :: "store \<Rightarrow> ref \<Rightarrow> pyval \<Rightarrow> target \<Rightarrow> store \<times> (error + bool)" where
  "transfer s self amount target_account =
     (case ensure_active (s self) of
        Inl e \<Rightarrow> (s, Inl e)
      | Inr _ \<Rightarrow>
     (case target_account of
        NotBankAccount \<Rightarrow> (s, Inl (InvalidAccountError TargetMsg))
      | Obj tgt \<Rightarrow>
     (case validate_amount amount of
        Inl e \<Rightarrow> (s, Inl e)
      | Inr _ \<Rightarrow>
     (case withdraw (s self) amount of
        (a1, Inl e) \<Rightarrow> (s(self := a1), Inl e)
      | (a1, Inr _) \<Rightarrow>
          (let s1 = s(self := a1) in
     (case deposit (s1 tgt) amount of
        (a2, Inl e) \<Rightarrow> (s1(tgt := a2), Inl e)
      | (a2, Inr _) \<Rightarrow>
          (let s2 = s1(tgt := a2);
               s3 = append_txn s2 self
                      (''Transfer to'', amount, balance (s2 self),
                       Some (account_number (s2 tgt)));
               s4 = append_txn s3 tgt
                      (''Transfer from'', amount, balance (s3 tgt),
                       Some (account_number (s3 self)))
           in (s4, Inr True))))))))"

section \<open>Parsing an account from a string\<close>

text \<open>
  \<open>str.split(";")\<close> cuts at every semicolon and keeps empty fields, so a string with \<open>n\<close>
  semicolons gives \<open>n + 1\<close> fields. \<open>str.strip()\<close> removes the white space at both ends; a
  \<open>char\<close> stands for a code point below 256, and \<open>is_space\<close> lists the ones for which
  \<open>str.isspace\<close> holds.
\<close>

fun split :: "char \<Rightarrow> string \<Rightarrow> string list" where
  "split sep [] = [[]]"
| "split sep (c # cs) =
     (if c = sep then [] # split sep cs
      else (case split sep cs of [] \<Rightarrow> [[c]] | f # fs \<Rightarrow> (c # f) # fs))"

definition is_space :: "char \<Rightarrow> bool" where
  "is_space c = ((of_char c :: nat) \<in> {9, 10, 11, 12, 13, 28, 29, 30, 31, 32, 133, 160})"

definition strip :: "string \<Rightarrow> string" where
  "strip s = rev (dropWhile is_space (rev (dropWhile is_space s)))"

text \<open>
  \<open>float\<close> is a built-in of the language, not code of this repository, so \<open>from_string\<close>
  takes it as the parameter \<open>parse\<close>: \<open>None\<close> where \<open>float\<close> raises \<open>ValueError\<close>,
  otherwise the float read, which may be an infinity or NaN. The \<open>try\<close> block unpacks
  the fields, evaluates the three arguments and calls the constructor; whatever is raised
  inside is caught and wrapped.
\<close>

definition from_string ::
    "(string \<Rightarrow> pyfloat option) \<Rightarrow> int \<Rightarrow> string \<Rightarrow> int \<times> (error + account)" where
  "from_string parse counter account_data =
     (case split CHR '';'' account_data of
        [name, balance_text, status_text] \<Rightarrow>
          (case parse balance_text of
             None \<Rightarrow> (counter, Inl (InvalidAccountError (FailedToParse ValueError)))
           | Some x \<Rightarrow>
               (case init counter (strip name) (PyFloat x) (strip status_text) of
                  (counter', Inl exc) \<Rightarrow>
                    (counter', Inl (InvalidAccountError (FailedToParse exc)))
                | (counter', Inr a) \<Rightarrow> (counter', Inr a)))
      | _ \<Rightarrow> (counter, Inl (InvalidAccountError (FailedToParse ValueError))))"

text \<open>
  One instance of the parameter, used to run examples. It reads, as \<open>float\<close> does, a
  non-empty string of ASCII digits, \<open>nan\<close> or \<open>inf\<close>, each with an optional sign in front,
  and stands for a \<open>ValueError\<close> on every other string, so it agrees with \<open>float\<close> on such
  strings only.
\<close>

fun digits_value :: "nat \<Rightarrow> string \<Rightarrow> nat option" where
  "digits_value acc [] = Some acc"
| "digits_value acc (c # cs) =
     (if 48 \<le> (of_char c :: nat) \<and> (of_char c :: nat) \<le> 57
      then digits_value (10 * acc + (of_char c - 48)) cs
      else None)"

definition unsigned_float :: "string \<Rightarrow> pyfloat option" where
  "unsigned_float s =
     (if s = ''nan'' then Some NaN
      else if s = ''inf'' then Some PosInf
      else if s = [] then None
      else map_option (\<lambda>n. fl (real n)) (digits_value 0 s))"

definition float_of_digits :: "string \<Rightarrow> pyfloat option" where
  "float_of_digits s =
     (case s of
        [] \<Rightarrow> None
      | c # cs \<Rightarrow>
          if c = CHR ''-'' then map_option fneg (unsigned_float cs)
          else if c = CHR ''+'' then unsigned_float cs
          else unsigned_float s)"

section \<open>A process: the shared counter, the objects created, a sequence of calls\<close>

text \<open>
  A client program such as the \<open>__main__\<close> block is a sequence of calls on the objects it
  has created; it catches the exception of a failing call and goes on, so a failing call
  leaves the state its method left. References are handed out in creation order:
  \<open>allocated\<close> counts the objects created so far, and \<open>objects\<close> is read below it only.
  A call naming a reference that was never handed out is not a program and is skipped.
\<close>

record world =
  account_counter :: int
  allocated :: nat
  objects :: store

datatype command =
    New string pyval string
  | FromBalance string pyval
  | FromString string
  | Deposit ref pyval
  | Withdraw ref pyval
  | Transfer ref pyval target
  | SetBalance ref pyval
  | SetStatus ref string

definition alloc :: "world \<Rightarrow> int \<times> (error + account) \<Rightarrow> world" where
  "alloc w res =
     (case res of
        (c, Inl e) \<Rightarrow> w\<lparr>account_counter := c\<rparr>
      | (c, Inr a) \<Rightarrow>
          w\<lparr>account_counter := c, allocated := Suc (allocated w),
            objects := (objects w)(allocated w := a)\<rparr>)"

definition on_object :: "world \<Rightarrow> ref \<Rightarrow> (account \<Rightarrow> account) \<Rightarrow> world" where
  "on_object w r f =
     (if r < allocated w then w\<lparr>objects := (objects w)(r := f (objects w r))\<rparr> else w)"

definition known :: "world \<Rightarrow> target \<Rightarrow> bool" where
  "known w t = (case t of Obj k \<Rightarrow> k < allocated w | NotBankAccount \<Rightarrow> True)"

fun exec :: "(string \<Rightarrow> pyfloat option) \<Rightarrow> world \<Rightarrow> command \<Rightarrow> world" where
  "exec tf w (New holder b st) = alloc w (init (account_counter w) holder b st)"
| "exec tf w (FromBalance holder b) = alloc w (from_balance (account_counter w) holder b)"
| "exec tf w (FromString d) = alloc w (from_string tf (account_counter w) d)"
| "exec tf w (Deposit r v) = on_object w r (\<lambda>a. fst (deposit a v))"
| "exec tf w (Withdraw r v) = on_object w r (\<lambda>a. fst (withdraw a v))"
| "exec tf w (SetBalance r v) = on_object w r (\<lambda>a. fst (set_balance a v))"
| "exec tf w (SetStatus r v) = on_object w r (\<lambda>a. fst (set_status a v))"
| "exec tf w (Transfer r v t) =
     (if r < allocated w \<and> known w t
      then w\<lparr>objects := fst (transfer (objects w) r v t)\<rparr> else w)"

definition run :: "(string \<Rightarrow> pyfloat option) \<Rightarrow> world \<Rightarrow> command list \<Rightarrow> world" where
  "run tf w cmds = foldl (exec tf) w cmds"

definition fresh :: "store \<Rightarrow> world" where
  "fresh s = \<lparr>account_counter = 1000, allocated = 0, objects = s\<rparr>"

text \<open>
  Two properties of a process state, used as invariants. The balance of every object
  created so far is not negative: it is at least 0 or it is NaN. The account numbers are
  above 1000, at most the counter, and increase strictly in the order of creation.
\<close>

definition never_negative :: "world \<Rightarrow> bool" where
  "never_negative w = (\<forall>k<allocated w. \<not> flt (balance (objects w k)) (Finite 0))"

definition increasing :: "world \<Rightarrow> bool" where
  "increasing w =
     (1000 + int (allocated w) \<le> account_counter w
      \<and> (\<forall>k<allocated w. 1000 < account_number (objects w k)
                         \<and> account_number (objects w k) \<le> account_counter w)
      \<and> (\<forall>j<allocated w. \<forall>i<j.
            account_number (objects w i) < account_number (objects w j)))"

section \<open>The objects of the example script\<close>

text \<open>
  The \<open>__main__\<close> block creates \<open>account1 = BankAccount("John Doe", 1000)\<close> and
  \<open>account2 = BankAccount.from_balance("Jane Smith", 500)\<close> in a new process, so they carry
  the numbers 1001 and 1002. \<open>closed_account\<close> is what \<open>BankAccount("Ann Lee", 50, "inactive")\<close>
  would create next, and \<open>rich_account\<close> what \<open>BankAccount("Rich", float("inf"))\<close> would
  create first in a new process.
\<close>

definition account1 :: account where
  "account1 =
     \<lparr>account_number = 1001, account_holder = ''John Doe'', balance = Finite 1000,
      status = ''active'',
      transactions = [(''Account created'', PyFloat (Finite 1000), Finite 1000, None)]\<rparr>"

definition account2 :: account where
  "account2 =
     \<lparr>account_number = 1002, account_holder = ''Jane Smith'', balance = Finite 500,
      status = ''active'',
      transactions = [(''Account created'', PyFloat (Finite 500), Finite 500, None)]\<rparr>"

definition closed_account :: account where
  "closed_account =
     \<lparr>account_number = 1003, account_holder = ''Ann Lee'', balance = Finite 50,
      status = ''inactive'',
      transactions = [(''Account created'', PyFloat (Finite 50), Finite 50, None)]\<rparr>"

definition rich_account :: account where
  "rich_account =
     \<lparr>account_number = 1001, account_holder = ''Rich'', balance = PosInf,
      status = ''active'',
      transactions = [(''Account created'', PyFloat PosInf, PosInf, None)]\<rparr>"

text \<open>A store holding the first three at the references 0, 1 and 2 (and from 2 on).\<close>

definition example_objects :: store where
  "example_objects r = (if r = 0 then account1 else if r = 1 then account2 else closed_account)"

text \<open>A store holding \<open>rich_account\<close> at the reference 0 and \<open>account2\<close> elsewhere.\<close>

definition rich_objects :: store where
  "rich_objects r = (if r = 0 then rich_account else account2)"

definition example_script :: "command list" where
  "example_script =
     [New ''John Doe'' (PyInt 1000) ''active'',
      FromBalance ''Jane Smith'' (PyInt 500),
      FromString ''Bob Wilson;750;active'',
      Deposit 0 (PyInt 200),
      Withdraw 0 (PyInt 100),
      Transfer 0 (PyInt 300) (Obj 1),
      Withdraw 0 (PyInt 2000),
      Deposit 0 (PyInt (- 50))]"

text \<open>
  A script whose first construction has an \<open>int\<close> balance beyond the range of a float:
  \<open>BankAccount("x", 10**309)\<close> and then \<open>BankAccount("John Doe", 1000)\<close>.
\<close>

definition overflow_script :: "command list" where
  "overflow_script =
     [New ''x'' (PyInt (10 ^ 309)) ''active'',
      New ''John Doe'' (PyInt 1000) ''active'']"

section \<open>Facts about numbers\<close>

lemma million_below_limit: "1000000 < float_limit"
  by (simp add: float_limit_def)

lemma fl_in_range: "\<bar>x\<bar> < float_limit \<Longrightarrow> fl x = Finite x"
  by (auto simp: fl_def)

lemma fl_small: "\<bar>x\<bar> \<le> 1000000 \<Longrightarrow> fl x = Finite x"
  using million_below_limit by (intro fl_in_range) linarith

lemma flt_NaN [simp]: "flt x NaN = False"
  by (cases x) simp_all

lemma fle_NaN [simp]: "fle x NaN = False"
  by (cases x) simp_all

lemma fadd_NaN [simp]: "fadd x NaN = NaN"
  by (cases x) simp_all

lemma to_float_small: "\<bar>n\<bar> \<le> 1000000 \<Longrightarrow> to_float (PyInt n) = Inr (Finite (of_int n))"
proof -
  assume "\<bar>n\<bar> \<le> 1000000"
  then have "\<bar>real_of_int n\<bar> \<le> 1000000" by linarith
  with million_below_limit have "\<bar>real_of_int n\<bar> < float_limit" by linarith
  then show ?thesis by (simp add: to_float_def)
qed

lemma to_float_float: "to_float (PyFloat f) = Inr f"
  by (simp add: to_float_def)

lemma to_float_number: "to_float v = Inr f \<Longrightarrow> is_number v"
  by (cases v) (simp_all add: to_float_def)

lemma to_float_finite:
  "num v = Finite x \<Longrightarrow> \<bar>x\<bar> < float_limit \<Longrightarrow> to_float v = Inr (Finite x)"
  by (cases v) (auto simp: to_float_def)

lemma positive_not_le_zero: "flt (Finite 0) x \<Longrightarrow> \<not> fle x (Finite 0)"
  by (cases x) simp_all

lemma le_not_greater: "fle x y \<Longrightarrow> \<not> flt y x"
  by (cases x; cases y) simp_all

section \<open>What a single call does\<close>

lemma deposit_ok:
  "status a = ''active'' \<Longrightarrow> \<not> fle (num v) (Finite 0) \<Longrightarrow> to_float v = Inr f \<Longrightarrow>
   deposit a v =
     (a\<lparr>balance := fadd (balance a) f,
        transactions := transactions a @ [(''Deposit'', v, fadd (balance a) f, None)]\<rparr>,
      Inr (fadd (balance a) f))"
  by (simp add: deposit_def ensure_active_def validate_amount_def py_add_def to_float_number)

lemma withdraw_ok:
  "status a = ''active'' \<Longrightarrow> \<not> fle (num v) (Finite 0) \<Longrightarrow> \<not> flt (balance a) (num v) \<Longrightarrow>
   to_float v = Inr f \<Longrightarrow>
   withdraw a v =
     (a\<lparr>balance := fsub (balance a) f,
        transactions := transactions a @ [(''Withdraw'', v, fsub (balance a) f, None)]\<rparr>,
      Inr (fsub (balance a) f))"
  by (simp add: withdraw_def ensure_active_def validate_amount_def py_gt_def py_sub_def
      to_float_number)

lemma withdraw_exceeds:
  "status a = ''active'' \<Longrightarrow> \<not> fle (num v) (Finite 0) \<Longrightarrow> flt (balance a) (num v) \<Longrightarrow>
   withdraw a v = (a, Inl (insufficient_funds (balance a) v))"
  by (cases v) (simp_all add: withdraw_def ensure_active_def validate_amount_def py_gt_def)

lemma deposit_not_active:
  "status a \<noteq> ''active'' \<Longrightarrow>
   deposit a v = (a, Inl (InvalidAccountError (NotActiveMsg (account_number a))))"
  by (simp add: deposit_def ensure_active_def)

lemma withdraw_not_active:
  "status a \<noteq> ''active'' \<Longrightarrow>
   withdraw a v = (a, Inl (InvalidAccountError (NotActiveMsg (account_number a))))"
  by (simp add: withdraw_def ensure_active_def)



text \<open>
  A call that returns was made on an active account with a number that is not \<open><= 0\<close>
  and that converts to a float; a withdrawal that returns had an amount that is not
  \<open>> balance\<close>.
\<close>

lemma deposit_returns:
  assumes "deposit a v = (a', Inr b)"
  shows "status a = ''active'' \<and> \<not> fle (num v) (Finite 0) \<and> (\<exists>f. to_float v = Inr f)"
  using assms
  by (auto simp: deposit_def ensure_active_def validate_amount_def py_add_def Let_def
      split: if_splits sum.splits)

lemma withdraw_returns:
  assumes "withdraw a v = (a', Inr b)"
  shows "status a = ''active'' \<and> \<not> fle (num v) (Finite 0) \<and> \<not> flt (balance a) (num v)
       \<and> (\<exists>f. to_float v = Inr f)"
  using assms
  by (auto simp: withdraw_def ensure_active_def validate_amount_def py_gt_def py_sub_def
      Let_def split: if_splits sum.splits)

text \<open>A call of \<open>deposit\<close> or \<open>withdraw\<close> that raises leaves the object as it was.\<close>

lemma deposit_raises_unchanged: "deposit a v = (a', Inl e) \<Longrightarrow> a' = a"
  by (auto simp: deposit_def Let_def split: sum.splits)

lemma withdraw_raises_unchanged: "withdraw a v = (a', Inl e) \<Longrightarrow> a' = a"
  by (auto simp: withdraw_def Let_def split: sum.splits if_splits)

section \<open>Withdrawal\<close>

text \<open>
  For an amount that is a float, or an \<open>int\<close> within the range of a float, \<open>withdraw\<close>
  behaves as documented: with \<open>0 < a <= balance\<close> it subtracts, appends one \<open>Withdraw\<close>
  entry and returns the new balance; with \<open>a > balance\<close> and \<open>a > 0\<close> it raises
  \<open>InsufficientFundsError\<close> with the balance and the amount and changes nothing.
\<close>

lemma withdraw_convertible_amount:
  assumes "status a = ''active''" and "to_float v = Inr f" and "flt (Finite 0) (num v)"
  shows "fle (num v) (balance a) \<Longrightarrow>
            withdraw a v =
              (a\<lparr>balance := fsub (balance a) f,
                 transactions :=
                   transactions a @ [(''Withdraw'', v, fsub (balance a) f, None)]\<rparr>,
               Inr (fsub (balance a) f))"
    and "flt (balance a) (num v) \<Longrightarrow>
            withdraw a v = (a, Inl (InsufficientFundsError (balance a) v))"
  using assms
  by (simp_all add: withdraw_ok withdraw_exceeds positive_not_le_zero le_not_greater
      insufficient_funds_def)

text \<open>
  Claim C3. The second half of the claim, that \<open>withdraw(a)\<close> with \<open>a > balance\<close> raises
  \<open>InsufficientFundsError\<close>, fails for an \<open>int\<close> beyond the range of a float:
  \<open>account1.withdraw(10**309)\<close> on the balance 1000 raises \<open>OverflowError\<close>, from the
  \<open>:.2f\<close> in the constructor of \<open>InsufficientFundsError\<close>. The account is left unchanged.
\<close>

theorem withdraw_huge_int_raises_overflow:
  "status account1 = ''active''
   \<and> balance account1 = Finite 1000
   \<and> flt (Finite 0) (num (PyInt (10 ^ 309)))
   \<and> flt (balance account1) (num (PyInt (10 ^ 309)))
   \<and> withdraw account1 (PyInt (10 ^ 309)) = (account1, Inl OverflowError)"
proof -
  have facts: "status account1 = ''active''" "balance account1 = Finite 1000"
    by (simp_all add: account1_def)
  have "to_float (PyInt (10 ^ 309)) = Inl OverflowError"
    by (simp add: to_float_def float_limit_def)
  then have "withdraw account1 (PyInt (10 ^ 309)) = (account1, Inl OverflowError)"
    by (simp add: withdraw_exceeds facts insufficient_funds_def)
  then show ?thesis by (simp add: facts)
qed

section \<open>Amounts that are not positive\<close>



section \<open>What a transfer does\<close>

lemma transfer_not_active:
  "status (s self) \<noteq> ''active'' \<Longrightarrow>
   transfer s self v t = (s, Inl (InvalidAccountError (NotActiveMsg (account_number (s self)))))"
  by (simp add: transfer_def ensure_active_def)

lemma transfer_ok_distinct:
  assumes "self \<noteq> tgt" "status (s self) = ''active''" "status (s tgt) = ''active''"
    and "\<not> fle (num v) (Finite 0)" "\<not> flt (balance (s self)) (num v)" "to_float v = Inr f"
  shows "transfer s self v (Obj tgt) =
    (s(self := (s self)\<lparr>balance := fsub (balance (s self)) f,
          transactions := transactions (s self) @
            [(''Withdraw'', v, fsub (balance (s self)) f, None),
             (''Transfer to'', v, fsub (balance (s self)) f,
              Some (account_number (s tgt)))]\<rparr>,
       tgt := (s tgt)\<lparr>balance := fadd (balance (s tgt)) f,
          transactions := transactions (s tgt) @
            [(''Deposit'', v, fadd (balance (s tgt)) f, None),
             (''Transfer from'', v, fadd (balance (s tgt)) f,
              Some (account_number (s self)))]\<rparr>),
     Inr True)"
  using assms
  by (simp add: transfer_def withdraw_ok deposit_ok append_txn_def Let_def
      ensure_active_def validate_amount_def to_float_number fun_upd_twist)

lemma transfer_ok_self:
  assumes "status (s self) = ''active''"
    and "\<not> fle (num v) (Finite 0)" "\<not> flt (balance (s self)) (num v)" "to_float v = Inr f"
  shows "transfer s self v (Obj self) =
    (s(self := (s self)\<lparr>balance := fadd (fsub (balance (s self)) f) f,
          transactions := transactions (s self) @
            [(''Withdraw'', v, fsub (balance (s self)) f, None),
             (''Deposit'', v, fadd (fsub (balance (s self)) f) f, None),
             (''Transfer to'', v, fadd (fsub (balance (s self)) f) f,
              Some (account_number (s self))),
             (''Transfer from'', v, fadd (fsub (balance (s self)) f) f,
              Some (account_number (s self)))]\<rparr>),
     Inr True)"
  using assms
  by (simp add: transfer_def withdraw_ok deposit_ok append_txn_def Let_def
      ensure_active_def validate_amount_def to_float_number)

lemma transfer_inactive_target:
  assumes "self \<noteq> tgt" "status (s self) = ''active''" "status (s tgt) \<noteq> ''active''"
    and "\<not> fle (num v) (Finite 0)" "\<not> flt (balance (s self)) (num v)" "to_float v = Inr f"
  shows "transfer s self v (Obj tgt) =
    (s(self := (s self)\<lparr>balance := fsub (balance (s self)) f,
          transactions := transactions (s self) @
            [(''Withdraw'', v, fsub (balance (s self)) f, None)]\<rparr>),
     Inl (InvalidAccountError (NotActiveMsg (account_number (s tgt)))))"
  using assms
  by (simp add: transfer_def withdraw_ok deposit_not_active Let_def
      ensure_active_def validate_amount_def to_float_number fun_eq_iff)

text \<open>
  A transfer that returns had an active source and target and an amount that the
  withdrawal accepted.
\<close>

lemma transfer_returns:
  assumes "transfer s self v t = (s', Inr ok)"
  shows "\<exists>tgt f. t = Obj tgt \<and> status (s self) = ''active'' \<and> status (s tgt) = ''active''
           \<and> \<not> fle (num v) (Finite 0) \<and> \<not> flt (balance (s self)) (num v)
           \<and> to_float v = Inr f"
proof -
  from assms have act: "status (s self) = ''active''"
    by (auto simp: transfer_def ensure_active_def split: if_splits)
  from assms act obtain tgt where t: "t = Obj tgt"
    by (cases t) (auto simp: transfer_def ensure_active_def)
  obtain a1 r1 where w: "withdraw (s self) v = (a1, r1)"
    by (cases "withdraw (s self) v")
  from assms act t w obtain b1 where r1: "r1 = Inr b1"
    by (cases r1) (auto simp: transfer_def ensure_active_def split: sum.splits)
  from withdraw_returns [OF w [unfolded r1]]
  obtain f where v: "\<not> fle (num v) (Finite 0)" "\<not> flt (balance (s self)) (num v)"
    "to_float v = Inr f"
    by blast
  have "status (s tgt) = ''active''"
  proof (rule ccontr)
    assume na: "status (s tgt) \<noteq> ''active''"
    then have "self \<noteq> tgt" using act by auto
    with transfer_inactive_target [of self tgt s v f] act na v assms t
    show False by simp
  qed
  with t v act show ?thesis by blast
qed

text \<open>
  A failing transfer leaves the store as it was, except in one case: the target is
  another account that is not active. Then the source has already been debited and
  carries the \<open>Withdraw\<close> entry.
\<close>

lemma transfer_raises_cases:
  assumes "transfer s self v t = (s', Inl e)"
  shows "s' = s \<or>
         (\<exists>tgt f. t = Obj tgt \<and> self \<noteq> tgt \<and> status (s tgt) \<noteq> ''active''
            \<and> \<not> fle (num v) (Finite 0) \<and> \<not> flt (balance (s self)) (num v)
            \<and> to_float v = Inr f
            \<and> s' = s(self := (s self)\<lparr>balance := fsub (balance (s self)) f,
                  transactions := transactions (s self) @
                    [(''Withdraw'', v, fsub (balance (s self)) f, None)]\<rparr>))"
proof (cases "status (s self) = ''active''")
  case False
  with assms show ?thesis by (simp add: transfer_not_active)
next
  case act: True
  show ?thesis
  proof (cases t)
    case NotBankAccount
    with assms act show ?thesis by (simp add: transfer_def ensure_active_def)
  next
    case (Obj tgt)
    obtain a1 r1 where w: "withdraw (s self) v = (a1, r1)"
      by (cases "withdraw (s self) v")
    show ?thesis
    proof (cases r1)
      case (Inl e1)
      with w have "a1 = s self" by (simp add: withdraw_raises_unchanged)
      with assms act Obj w Inl show ?thesis
        by (auto simp: transfer_def ensure_active_def split: sum.splits)
    next
      case (Inr b1)
      from withdraw_returns [OF w [unfolded Inr]]
      obtain f where v: "\<not> fle (num v) (Finite 0)" "\<not> flt (balance (s self)) (num v)"
        "to_float v = Inr f"
        by blast
      have na: "status (s tgt) \<noteq> ''active''"
      proof
        assume tact: "status (s tgt) = ''active''"
        show False
        proof (cases "self = tgt")
          case True
          with transfer_ok_self [of s self v f] act v assms Obj show False by simp
        next
          case False
          with transfer_ok_distinct [of self tgt s v f] act tact v assms Obj
          show False by simp
        qed
      qed
      with act have ne: "self \<noteq> tgt" by auto
      from transfer_inactive_target [of self tgt s v f] ne act na v assms Obj
      have "s' = s(self := (s self)\<lparr>balance := fsub (balance (s self)) f,
                  transactions := transactions (s self) @
                    [(''Withdraw'', v, fsub (balance (s self)) f, None)]\<rparr>)"
        by simp
      with Obj ne na v show ?thesis by blast
    qed
  qed
qed

section \<open>Inactive accounts\<close>

text \<open>
  Claim C7. On an account whose status is \<open>inactive\<close>, \<open>deposit\<close>, \<open>withdraw\<close> and \<open>transfer\<close>
  (the account being the source) raise \<open>InvalidAccountError\<close> for every amount and every
  target, and nothing changes: the object, and for \<open>transfer\<close> the whole store, is as before.
\<close>

theorem inactive_account_rejects_operations:
  assumes "status (s self) = ''inactive''"
  shows "deposit (s self) v =
           (s self, Inl (InvalidAccountError (NotActiveMsg (account_number (s self)))))
       \<and> withdraw (s self) v =
           (s self, Inl (InvalidAccountError (NotActiveMsg (account_number (s self)))))
       \<and> transfer s self v t =
           (s, Inl (InvalidAccountError (NotActiveMsg (account_number (s self)))))"
  using assms by (simp add: deposit_not_active withdraw_not_active transfer_not_active)

theorem inactive_account_rejects_operations_witness:
  "status (example_objects 2) = ''inactive''
   \<and> deposit (example_objects 2) (PyInt 10) =
       (example_objects 2, Inl (InvalidAccountError (NotActiveMsg 1003)))
   \<and> withdraw (example_objects 2) (PyInt 10) =
       (example_objects 2, Inl (InvalidAccountError (NotActiveMsg 1003)))
   \<and> transfer example_objects 2 (PyInt 10) (Obj 0) =
       (example_objects, Inl (InvalidAccountError (NotActiveMsg 1003)))"
proof -
  have inactive: "status (example_objects 2) = ''inactive''"
    and number: "account_number (example_objects 2) = 1003"
    by (simp_all add: example_objects_def closed_account_def)
  from inactive_account_rejects_operations [of example_objects 2 "PyInt 10" "Obj 0"]
  show ?thesis using inactive by (simp add: number)
qed

section \<open>A failing call and the state it leaves\<close>

text \<open>
  Claim C1. A call that raises has changed nothing. The code does not keep this for a
  transfer to an inactive target: \<open>account1.transfer(300, closed_account)\<close> raises
  \<open>InvalidAccountError\<close> from the deposit, after the withdrawal has taken 300 from
  \<open>account1\<close> and logged it; the target is untouched, so the amount is credited nowhere.
\<close>

theorem transfer_to_inactive_target_leaves_partial_state:
  "snd (transfer example_objects 0 (PyInt 300) (Obj 2)) =
     Inl (InvalidAccountError (NotActiveMsg 1003))
   \<and> balance (example_objects 0) = Finite 1000
   \<and> balance (fst (transfer example_objects 0 (PyInt 300) (Obj 2)) 0) = Finite 700
   \<and> transactions (fst (transfer example_objects 0 (PyInt 300) (Obj 2)) 0) =
       [(''Account created'', PyFloat (Finite 1000), Finite 1000, None),
        (''Withdraw'', PyInt 300, Finite 700, None)]
   \<and> fst (transfer example_objects 0 (PyInt 300) (Obj 2)) 2 = example_objects 2"
proof -
  have facts: "status (example_objects 0) = ''active''"
    "status (example_objects 2) \<noteq> ''active''"
    "balance (example_objects 0) = Finite 1000" "account_number (example_objects 2) = 1003"
    "transactions (example_objects 0) =
       [(''Account created'', PyFloat (Finite 1000), Finite 1000, None)]"
    by (simp_all add: example_objects_def account1_def closed_account_def)
  have "transfer example_objects 0 (PyInt 300) (Obj 2) =
    (example_objects(0 := (example_objects 0)\<lparr>
          balance := fsub (balance (example_objects 0)) (Finite 300),
          transactions := transactions (example_objects 0) @
            [(''Withdraw'', PyInt 300, fsub (balance (example_objects 0)) (Finite 300),
              None)]\<rparr>),
     Inl (InvalidAccountError (NotActiveMsg (account_number (example_objects 2)))))"
    by (rule transfer_inactive_target) (simp_all add: facts to_float_small)
  then show ?thesis by (simp add: facts fsub_def fl_small)
qed

section \<open>Entries appended to the history\<close>

text \<open>
  Claim C2, as the code has it. A \<open>deposit\<close> that returns has appended exactly one entry to
  the history of its account, and so has a \<open>withdraw\<close> that returns. A \<open>transfer\<close> that
  returns has appended exactly four entries, not two: it calls \<open>withdraw\<close> and \<open>deposit\<close>,
  which log as usual, and then adds the two transfer entries. Between distinct accounts
  the source gains \<open>Withdraw\<close> and \<open>Transfer to\<close>, the target \<open>Deposit\<close> and \<open>Transfer from\<close>;
  when the target is the source, the one history gains all four. The third component of
  every entry is the balance of its account at the moment of the append (for the
  \<open>Withdraw\<close> entry of a transfer to itself: the balance the withdrawal step left), the
  entries already there stay in place, and no other object changes.
\<close>

theorem history_entries_appended:
  "(deposit a v = (a', Inr b) \<longrightarrow>
      transactions a' = transactions a @ [(''Deposit'', v, balance a', None)])
   \<and> (withdraw a v = (a', Inr b) \<longrightarrow>
      transactions a' = transactions a @ [(''Withdraw'', v, balance a', None)])
   \<and> (transfer s A v (Obj B) = (s', Inr ok) \<and> A \<noteq> B \<longrightarrow>
        transactions (s' A) =
          transactions (s A) @
            [(''Withdraw'', v, balance (s' A), None),
             (''Transfer to'', v, balance (s' A), Some (account_number (s B)))]
      \<and> transactions (s' B) =
          transactions (s B) @
            [(''Deposit'', v, balance (s' B), None),
             (''Transfer from'', v, balance (s' B), Some (account_number (s A)))]
      \<and> s' = s(A := s' A, B := s' B))
   \<and> (transfer s A v (Obj A) = (s', Inr ok) \<longrightarrow>
        transactions (s' A) =
          transactions (s A) @
            [(''Withdraw'', v, balance (fst (withdraw (s A) v)), None),
             (''Deposit'', v, balance (s' A), None),
             (''Transfer to'', v, balance (s' A), Some (account_number (s A))),
             (''Transfer from'', v, balance (s' A), Some (account_number (s A)))]
      \<and> s' = s(A := s' A))"
proof (intro conjI impI)
  assume d: "deposit a v = (a', Inr b)"
  from deposit_returns [OF d] obtain f where
    "status a = ''active''" "\<not> fle (num v) (Finite 0)" "to_float v = Inr f"
    by blast
  with d show "transactions a' = transactions a @ [(''Deposit'', v, balance a', None)]"
    by (auto simp: deposit_ok)
next
  assume w: "withdraw a v = (a', Inr b)"
  from withdraw_returns [OF w] obtain f where
    "status a = ''active''" "\<not> fle (num v) (Finite 0)" "\<not> flt (balance a) (num v)"
    "to_float v = Inr f"
    by blast
  with w show "transactions a' = transactions a @ [(''Withdraw'', v, balance a', None)]"
    by (auto simp: withdraw_ok)
next
  assume t: "transfer s A v (Obj B) = (s', Inr ok) \<and> A \<noteq> B"
  from transfer_returns [of s A v "Obj B" s' ok] t
  obtain f where x: "status (s A) = ''active''" "status (s B) = ''active''"
    "\<not> fle (num v) (Finite 0)" "\<not> flt (balance (s A)) (num v)" "to_float v = Inr f"
    by auto
  from t have ne: "A \<noteq> B" by simp
  from transfer_ok_distinct [of A B s v f] ne x t
  have s': "s' = s(A := (s A)\<lparr>balance := fsub (balance (s A)) f,
          transactions := transactions (s A) @
            [(''Withdraw'', v, fsub (balance (s A)) f, None),
             (''Transfer to'', v, fsub (balance (s A)) f, Some (account_number (s B)))]\<rparr>,
       B := (s B)\<lparr>balance := fadd (balance (s B)) f,
          transactions := transactions (s B) @
            [(''Deposit'', v, fadd (balance (s B)) f, None),
             (''Transfer from'', v, fadd (balance (s B)) f,
              Some (account_number (s A)))]\<rparr>)"
    by simp
  show "transactions (s' A) =
          transactions (s A) @
            [(''Withdraw'', v, balance (s' A), None),
             (''Transfer to'', v, balance (s' A), Some (account_number (s B)))]"
    using ne by (simp add: s')
  show "transactions (s' B) =
          transactions (s B) @
            [(''Deposit'', v, balance (s' B), None),
             (''Transfer from'', v, balance (s' B), Some (account_number (s A)))]"
    using ne by (simp add: s')
  show "s' = s(A := s' A, B := s' B)"
    using ne by (simp add: s')
next
  assume t: "transfer s A v (Obj A) = (s', Inr ok)"
  from transfer_returns [OF t]
  obtain f where x: "status (s A) = ''active''"
    "\<not> fle (num v) (Finite 0)" "\<not> flt (balance (s A)) (num v)" "to_float v = Inr f"
    by auto
  from transfer_ok_self [of s A v f] x t
  have s': "s' = s(A := (s A)\<lparr>balance := fadd (fsub (balance (s A)) f) f,
          transactions := transactions (s A) @
            [(''Withdraw'', v, fsub (balance (s A)) f, None),
             (''Deposit'', v, fadd (fsub (balance (s A)) f) f, None),
             (''Transfer to'', v, fadd (fsub (balance (s A)) f) f,
              Some (account_number (s A))),
             (''Transfer from'', v, fadd (fsub (balance (s A)) f) f,
              Some (account_number (s A)))]\<rparr>)"
    by simp
  show "transactions (s' A) =
          transactions (s A) @
            [(''Withdraw'', v, balance (fst (withdraw (s A) v)), None),
             (''Deposit'', v, balance (s' A), None),
             (''Transfer to'', v, balance (s' A), Some (account_number (s A))),
             (''Transfer from'', v, balance (s' A), Some (account_number (s A)))]"
    by (simp add: s' x withdraw_ok)
  show "s' = s(A := s' A)"
    by (simp add: s')
qed

lemma example_facts:
  "status (example_objects 0) = ''active''"
  "status (example_objects (Suc 0)) = ''active''"
  "balance (example_objects 0) = Finite 1000"
  "balance (example_objects (Suc 0)) = Finite 500"
  "account_number (example_objects 0) = 1001"
  "account_number (example_objects (Suc 0)) = 1002"
  "transactions (example_objects 0) =
     [(''Account created'', PyFloat (Finite 1000), Finite 1000, None)]"
  "transactions (example_objects (Suc 0)) =
     [(''Account created'', PyFloat (Finite 500), Finite 500, None)]"
  by (simp_all add: example_objects_def account1_def account2_def)

lemma example_transfer:
  "transfer example_objects 0 (PyInt 300) (Obj (Suc 0)) =
    (example_objects
       (0 := (example_objects 0)\<lparr>balance := Finite 700,
          transactions :=
            [(''Account created'', PyFloat (Finite 1000), Finite 1000, None),
             (''Withdraw'', PyInt 300, Finite 700, None),
             (''Transfer to'', PyInt 300, Finite 700, Some 1002)]\<rparr>,
        Suc 0 := (example_objects (Suc 0))\<lparr>balance := Finite 800,
          transactions :=
            [(''Account created'', PyFloat (Finite 500), Finite 500, None),
             (''Deposit'', PyInt 300, Finite 800, None),
             (''Transfer from'', PyInt 300, Finite 800, Some 1001)]\<rparr>),
     Inr True)"
proof -
  have "to_float (PyInt 300) = Inr (Finite 300)"
    by (simp add: to_float_small)
  from transfer_ok_distinct [of 0 "Suc 0" example_objects "PyInt 300" "Finite 300", OF _ _ _ _ _ this]
  show ?thesis by (simp add: example_facts fsub_def fl_small)
qed

lemma example_self_transfer:
  "transfer example_objects 0 (PyInt 300) (Obj 0) =
    (example_objects
       (0 := (example_objects 0)\<lparr>balance := Finite 1000,
          transactions :=
            [(''Account created'', PyFloat (Finite 1000), Finite 1000, None),
             (''Withdraw'', PyInt 300, Finite 700, None),
             (''Deposit'', PyInt 300, Finite 1000, None),
             (''Transfer to'', PyInt 300, Finite 1000, Some 1001),
             (''Transfer from'', PyInt 300, Finite 1000, Some 1001)]\<rparr>),
     Inr True)"
proof -
  have "to_float (PyInt 300) = Inr (Finite 300)"
    by (simp add: to_float_small)
  from transfer_ok_self [of example_objects 0 "PyInt 300" "Finite 300", OF _ _ _ this]
  show ?thesis by (simp add: example_facts fsub_def fl_small)
qed

theorem history_entries_appended_witness:
  "deposit account1 (PyInt 200) = (fst (deposit account1 (PyInt 200)), Inr (Finite 1200))
   \<and> transactions (fst (deposit account1 (PyInt 200))) =
       [(''Account created'', PyFloat (Finite 1000), Finite 1000, None),
        (''Deposit'', PyInt 200, Finite 1200, None)]
   \<and> withdraw account1 (PyInt 100) = (fst (withdraw account1 (PyInt 100)), Inr (Finite 900))
   \<and> transactions (fst (withdraw account1 (PyInt 100))) =
       [(''Account created'', PyFloat (Finite 1000), Finite 1000, None),
        (''Withdraw'', PyInt 100, Finite 900, None)]
   \<and> transfer example_objects 0 (PyInt 300) (Obj 1) =
       (fst (transfer example_objects 0 (PyInt 300) (Obj 1)), Inr True)
   \<and> transactions (fst (transfer example_objects 0 (PyInt 300) (Obj 1)) 0) =
       [(''Account created'', PyFloat (Finite 1000), Finite 1000, None),
        (''Withdraw'', PyInt 300, Finite 700, None),
        (''Transfer to'', PyInt 300, Finite 700, Some 1002)]
   \<and> transactions (fst (transfer example_objects 0 (PyInt 300) (Obj 1)) 1) =
       [(''Account created'', PyFloat (Finite 500), Finite 500, None),
        (''Deposit'', PyInt 300, Finite 800, None),
        (''Transfer from'', PyInt 300, Finite 800, Some 1001)]
   \<and> transfer example_objects 0 (PyInt 300) (Obj 0) =
       (fst (transfer example_objects 0 (PyInt 300) (Obj 0)), Inr True)
   \<and> transactions (fst (transfer example_objects 0 (PyInt 300) (Obj 0)) 0) =
       [(''Account created'', PyFloat (Finite 1000), Finite 1000, None),
        (''Withdraw'', PyInt 300, Finite 700, None),
        (''Deposit'', PyInt 300, Finite 1000, None),
        (''Transfer to'', PyInt 300, Finite 1000, Some 1001),
        (''Transfer from'', PyInt 300, Finite 1000, Some 1001)]"
proof -
  have acc: "status account1 = ''active''" "balance account1 = Finite 1000"
    "transactions account1 =
       [(''Account created'', PyFloat (Finite 1000), Finite 1000, None)]"
    by (simp_all add: account1_def)
  have d: "deposit account1 (PyInt 200) = (fst (deposit account1 (PyInt 200)), Inr (Finite 1200))"
    and db: "balance (fst (deposit account1 (PyInt 200))) = Finite 1200"
    by (simp_all add: deposit_ok [where f = "Finite 200"] to_float_small acc fl_small)
  have w: "withdraw account1 (PyInt 100) = (fst (withdraw account1 (PyInt 100)), Inr (Finite 900))"
    and wb: "balance (fst (withdraw account1 (PyInt 100))) = Finite 900"
    by (simp_all add: withdraw_ok [where f = "Finite 100"] to_float_small acc fsub_def fl_small)
  have t: "transfer example_objects 0 (PyInt 300) (Obj 1) =
      (fst (transfer example_objects 0 (PyInt 300) (Obj 1)), Inr True) \<and> (0::nat) \<noteq> 1"
    and tb: "balance (fst (transfer example_objects 0 (PyInt 300) (Obj 1)) 0) = Finite 700"
      "balance (fst (transfer example_objects 0 (PyInt 300) (Obj 1)) (Suc 0)) = Finite 800"
    by (simp_all add: example_transfer)
  have u: "transfer example_objects 0 (PyInt 300) (Obj 0) =
      (fst (transfer example_objects 0 (PyInt 300) (Obj 0)), Inr True)"
    and ub: "balance (fst (transfer example_objects 0 (PyInt 300) (Obj 0)) 0) = Finite 1000"
      "balance (fst (withdraw (example_objects 0) (PyInt 300))) = Finite 700"
    by (simp_all add: example_self_transfer withdraw_ok [where f = "Finite 300"]
        to_float_small example_facts fsub_def fl_small)
  note app = history_entries_appended
  from app [of account1 "PyInt 200" "fst (deposit account1 (PyInt 200))" "Finite 1200"] d db
  have 1: "transactions (fst (deposit account1 (PyInt 200))) =
       [(''Account created'', PyFloat (Finite 1000), Finite 1000, None),
        (''Deposit'', PyInt 200, Finite 1200, None)]"
    by (simp add: acc)
  from app [of account1 "PyInt 100" "fst (withdraw account1 (PyInt 100))" "Finite 900"] w wb
  have 2: "transactions (fst (withdraw account1 (PyInt 100))) =
       [(''Account created'', PyFloat (Finite 1000), Finite 1000, None),
        (''Withdraw'', PyInt 100, Finite 900, None)]"
    by (simp add: acc)
  from app [of _ "PyInt 300" _ _ example_objects 0 1
      "fst (transfer example_objects 0 (PyInt 300) (Obj 1))" True] t tb
  have 3: "transactions (fst (transfer example_objects 0 (PyInt 300) (Obj 1)) 0) =
       [(''Account created'', PyFloat (Finite 1000), Finite 1000, None),
        (''Withdraw'', PyInt 300, Finite 700, None),
        (''Transfer to'', PyInt 300, Finite 700, Some 1002)]"
    "transactions (fst (transfer example_objects 0 (PyInt 300) (Obj 1)) 1) =
       [(''Account created'', PyFloat (Finite 500), Finite 500, None),
        (''Deposit'', PyInt 300, Finite 800, None),
        (''Transfer from'', PyInt 300, Finite 800, Some 1001)]"
    by (simp_all add: example_facts)
  from app [of _ "PyInt 300" _ _ example_objects 0 _
      "fst (transfer example_objects 0 (PyInt 300) (Obj 0))" True] u ub
  have 4: "transactions (fst (transfer example_objects 0 (PyInt 300) (Obj 0)) 0) =
       [(''Account created'', PyFloat (Finite 1000), Finite 1000, None),
        (''Withdraw'', PyInt 300, Finite 700, None),
        (''Deposit'', PyInt 300, Finite 1000, None),
        (''Transfer to'', PyInt 300, Finite 1000, Some 1001),
        (''Transfer from'', PyInt 300, Finite 1000, Some 1001)]"
    by (simp add: example_facts)
  from d w t u 1 2 3 4 show ?thesis by simp
qed

text \<open>
  Claim C2 as it is written fails on a transfer: in the example script,
  \<open>account1.transfer(300, account2)\<close> returns \<open>True\<close> and each of the two histories has
  grown by two entries, four in total.
\<close>

theorem transfer_appends_two_entries_counterexample:
  "snd (transfer example_objects 0 (PyInt 300) (Obj 1)) = Inr True
   \<and> length (transactions (fst (transfer example_objects 0 (PyInt 300) (Obj 1)) 0)) =
       length (transactions (example_objects 0)) + 2
   \<and> length (transactions (fst (transfer example_objects 0 (PyInt 300) (Obj 1)) 1)) =
       length (transactions (example_objects 1)) + 2"
  by (simp add: example_transfer example_facts)

section \<open>Transfer between two accounts\<close>

text \<open>
  An amount with \<open>0 < a <= balance\<close>, where the balance is a finite float, is a float or an
  \<open>int\<close> within the range of a float: it converts, to its own value.
\<close>

lemma amount_within_finite_balance:
  assumes "flt (Finite 0) (num v)" and "fle (num v) (Finite b)" and "\<bar>b\<bar> < float_limit"
  shows "\<exists>x. num v = Finite x \<and> 0 < x \<and> x \<le> b \<and> to_float v = Inr (Finite x)"
proof -
  from assms(1,2) obtain x where x: "num v = Finite x" "0 < x" "x \<le> b"
    by (cases "num v") auto
  with assms(3) have "\<bar>x\<bar> < float_limit" by linarith
  with x show ?thesis by (auto simp: to_float_finite)
qed

text \<open>
  Claim C4, as the code has it. For two distinct accounts \<open>A\<close> and \<open>B\<close>, both active, and
  an amount \<open>a\<close> with \<open>0 < a <= A.balance\<close> that is a float or an \<open>int\<close> within the range of
  a float, \<open>A.transfer(a, B)\<close> returns \<open>True\<close>; afterwards \<open>A\<close> holds its old balance minus
  \<open>a\<close> and \<open>B\<close> its old balance plus \<open>a\<close>, the history of \<open>A\<close> has gained a \<open>Transfer to\<close>
  entry with the number of \<open>B\<close> (after the \<open>Withdraw\<close> entry of the withdrawal), and the
  history of \<open>B\<close> a \<open>Transfer from\<close> entry with the number of \<open>A\<close> (after the \<open>Deposit\<close>
  entry). Every amount within a finite balance is such an amount.
\<close>

theorem transfer_between_distinct_active_accounts:
  assumes "A \<noteq> B" and "status (s A) = ''active''" and "status (s B) = ''active''"
    and "flt (Finite 0) (num v)" and "fle (num v) (balance (s A))"
    and "to_float v = Inr f"
  shows "snd (transfer s A v (Obj B)) = Inr True
       \<and> balance (fst (transfer s A v (Obj B)) A) = fsub (balance (s A)) f
       \<and> balance (fst (transfer s A v (Obj B)) B) = fadd (balance (s B)) f
       \<and> transactions (fst (transfer s A v (Obj B)) A) =
           transactions (s A) @
             [(''Withdraw'', v, fsub (balance (s A)) f, None),
              (''Transfer to'', v, fsub (balance (s A)) f, Some (account_number (s B)))]
       \<and> transactions (fst (transfer s A v (Obj B)) B) =
           transactions (s B) @
             [(''Deposit'', v, fadd (balance (s B)) f, None),
              (''Transfer from'', v, fadd (balance (s B)) f, Some (account_number (s A)))]"
  using assms
  by (simp add: transfer_ok_distinct positive_not_le_zero le_not_greater)

theorem transfer_between_distinct_active_accounts_witness:
  "(0::nat) \<noteq> 1 \<and> status (example_objects 0) = ''active''
   \<and> status (example_objects 1) = ''active''
   \<and> flt (Finite 0) (num (PyInt 300)) \<and> fle (num (PyInt 300)) (balance (example_objects 0))
   \<and> to_float (PyInt 300) = Inr (Finite 300)
   \<and> snd (transfer example_objects 0 (PyInt 300) (Obj 1)) = Inr True
   \<and> balance (fst (transfer example_objects 0 (PyInt 300) (Obj 1)) 0) = Finite 700
   \<and> balance (fst (transfer example_objects 0 (PyInt 300) (Obj 1)) 1) = Finite 800
   \<and> transactions (fst (transfer example_objects 0 (PyInt 300) (Obj 1)) 0) =
       [(''Account created'', PyFloat (Finite 1000), Finite 1000, None),
        (''Withdraw'', PyInt 300, Finite 700, None),
        (''Transfer to'', PyInt 300, Finite 700, Some 1002)]
   \<and> transactions (fst (transfer example_objects 0 (PyInt 300) (Obj 1)) 1) =
       [(''Account created'', PyFloat (Finite 500), Finite 500, None),
        (''Deposit'', PyInt 300, Finite 800, None),
        (''Transfer from'', PyInt 300, Finite 800, Some 1001)]"
proof -
  have c: "to_float (PyInt 300) = Inr (Finite 300)"
    by (simp add: to_float_small)
  from transfer_between_distinct_active_accounts
    [of 0 "Suc 0" example_objects "PyInt 300" "Finite 300"] c
  show ?thesis by (simp add: example_facts fsub_def fl_small)
qed

text \<open>
  Claim C4 as it is written fails where the balance of the source is infinite: for
  \<open>rich = BankAccount("Rich", float("inf"))\<close> the amount \<open>10**309\<close> satisfies
  \<open>0 < a <= rich.balance\<close>, and \<open>rich.transfer(10**309, account2)\<close> raises \<open>OverflowError\<close>
  from \<open>self._balance -= amount\<close>. Nothing is changed.
\<close>

theorem transfer_from_infinite_balance_counterexample:
  "(0::nat) \<noteq> 1 \<and> status (rich_objects 0) = ''active'' \<and> status (rich_objects 1) = ''active''
   \<and> flt (Finite 0) (num (PyInt (10 ^ 309)))
   \<and> fle (num (PyInt (10 ^ 309))) (balance (rich_objects 0))
   \<and> transfer rich_objects 0 (PyInt (10 ^ 309)) (Obj 1) = (rich_objects, Inl OverflowError)"
proof -
  have facts: "status (rich_objects 0) = ''active''" "balance (rich_objects 0) = PosInf"
    "status (rich_objects (Suc 0)) = ''active''"
    by (simp_all add: rich_objects_def rich_account_def account2_def)
  have "to_float (PyInt (10 ^ 309)) = Inl OverflowError"
    by (simp add: to_float_def float_limit_def)
  then have "withdraw (rich_objects 0) (PyInt (10 ^ 309)) = (rich_objects 0, Inl OverflowError)"
    by (simp add: withdraw_def ensure_active_def validate_amount_def py_gt_def py_sub_def
        facts)
  then have "transfer rich_objects 0 (PyInt (10 ^ 309)) (Obj 1) =
      (rich_objects, Inl OverflowError)"
    by (simp add: transfer_def ensure_active_def validate_amount_def facts)
  then show ?thesis by (simp add: facts)
qed

section \<open>Transfer of an account to itself\<close>

text \<open>
  Claim C10, as the code has it. For an active account with a finite balance and
  \<open>0 < a <= balance\<close>, a transfer whose target is the account itself returns \<open>True\<close> and
  leaves the balance at its value before the call, and appends four entries to the one
  history: \<open>Withdraw\<close> (with the balance minus \<open>a\<close>), \<open>Deposit\<close>, \<open>Transfer to\<close> and
  \<open>Transfer from\<close> (with the balance as before). No other object changes.
\<close>

theorem self_transfer_keeps_balance:
  assumes "status (s A) = ''active''"
    and "balance (s A) = Finite b" and "\<bar>b\<bar> < float_limit"
    and "flt (Finite 0) (num v)" and "fle (num v) (balance (s A))"
  shows "snd (transfer s A v (Obj A)) = Inr True
       \<and> balance (fst (transfer s A v (Obj A)) A) = balance (s A)
       \<and> transactions (fst (transfer s A v (Obj A)) A) =
           transactions (s A) @
             [(''Withdraw'', v, fsub (balance (s A)) (num v), None),
              (''Deposit'', v, balance (s A), None),
              (''Transfer to'', v, balance (s A), Some (account_number (s A))),
              (''Transfer from'', v, balance (s A), Some (account_number (s A)))]
       \<and> fst (transfer s A v (Obj A)) = s(A := fst (transfer s A v (Obj A)) A)"
proof -
  from amount_within_finite_balance [of v b] assms
  obtain x where x: "num v = Finite x" "0 < x" "x \<le> b" "to_float v = Inr (Finite x)"
    by auto
  from x assms(3) have "\<bar>b - x\<bar> < float_limit" by linarith
  then have sub: "fsub (Finite b) (Finite x) = Finite (b - x)"
    by (simp add: fsub_def fl_in_range)
  from assms(3) have flb: "fl b = Finite b"
    by (rule fl_in_range)
  then have add: "fadd (Finite (b - x)) (Finite x) = Finite b"
    by simp
  from transfer_ok_self [of s A v "Finite x"] assms x
  have "transfer s A v (Obj A) =
    (s(A := (s A)\<lparr>balance := Finite b,
          transactions := transactions (s A) @
            [(''Withdraw'', v, Finite (b - x), None),
             (''Deposit'', v, Finite b, None),
             (''Transfer to'', v, Finite b, Some (account_number (s A))),
             (''Transfer from'', v, Finite b, Some (account_number (s A)))]\<rparr>),
     Inr True)"
    by (simp add: positive_not_le_zero le_not_greater sub add flb)
  then show ?thesis using assms(2) x(1) by (simp add: sub)
qed

theorem self_transfer_keeps_balance_witness:
  "status (example_objects 0) = ''active''
   \<and> balance (example_objects 0) = Finite 1000 \<and> \<bar>1000 :: real\<bar> < float_limit
   \<and> flt (Finite 0) (num (PyInt 300)) \<and> fle (num (PyInt 300)) (balance (example_objects 0))
   \<and> snd (transfer example_objects 0 (PyInt 300) (Obj 0)) = Inr True
   \<and> balance (fst (transfer example_objects 0 (PyInt 300) (Obj 0)) 0) = Finite 1000
   \<and> transactions (fst (transfer example_objects 0 (PyInt 300) (Obj 0)) 0) =
       [(''Account created'', PyFloat (Finite 1000), Finite 1000, None),
        (''Withdraw'', PyInt 300, Finite 700, None),
        (''Deposit'', PyInt 300, Finite 1000, None),
        (''Transfer to'', PyInt 300, Finite 1000, Some 1001),
        (''Transfer from'', PyInt 300, Finite 1000, Some 1001)]"
proof -
  have r: "\<bar>1000 :: real\<bar> < float_limit"
    using million_below_limit by simp
  from self_transfer_keeps_balance [of example_objects 0 1000 "PyInt 300"] r
  show ?thesis by (simp add: example_facts fsub_def fl_small)
qed

text \<open>
  Claim C10 as it is written fails where the balance is infinite: for
  \<open>rich = BankAccount("Rich", float("inf"))\<close> the amount \<open>10**309\<close> satisfies
  \<open>0 < a <= rich.balance\<close>, and \<open>rich.transfer(10**309, rich)\<close> does not return \<open>True\<close> but
  raises \<open>OverflowError\<close>; with the amount \<open>float("inf")\<close> it returns \<open>True\<close> and leaves the
  balance NaN.
\<close>

theorem self_transfer_infinite_balance_counterexample:
  "status (rich_objects 0) = ''active''
   \<and> flt (Finite 0) (num (PyInt (10 ^ 309)))
   \<and> fle (num (PyInt (10 ^ 309))) (balance (rich_objects 0))
   \<and> transfer rich_objects 0 (PyInt (10 ^ 309)) (Obj 0) = (rich_objects, Inl OverflowError)
   \<and> flt (Finite 0) (num (PyFloat PosInf))
   \<and> fle (num (PyFloat PosInf)) (balance (rich_objects 0))
   \<and> snd (transfer rich_objects 0 (PyFloat PosInf) (Obj 0)) = Inr True
   \<and> balance (fst (transfer rich_objects 0 (PyFloat PosInf) (Obj 0)) 0) = NaN"
proof -
  have facts: "status (rich_objects 0) = ''active''" "balance (rich_objects 0) = PosInf"
    by (simp_all add: rich_objects_def rich_account_def)
  have "to_float (PyInt (10 ^ 309)) = Inl OverflowError"
    by (simp add: to_float_def float_limit_def)
  then have "withdraw (rich_objects 0) (PyInt (10 ^ 309)) = (rich_objects 0, Inl OverflowError)"
    by (simp add: withdraw_def ensure_active_def validate_amount_def py_gt_def py_sub_def
        facts)
  then have 1: "transfer rich_objects 0 (PyInt (10 ^ 309)) (Obj 0) =
      (rich_objects, Inl OverflowError)"
    by (simp add: transfer_def ensure_active_def validate_amount_def facts)
  from transfer_ok_self [of rich_objects 0 "PyFloat PosInf" PosInf]
  have 2: "snd (transfer rich_objects 0 (PyFloat PosInf) (Obj 0)) = Inr True"
    "balance (fst (transfer rich_objects 0 (PyFloat PosInf) (Obj 0)) 0) = NaN"
    by (simp_all add: facts to_float_float fsub_def)
  from 1 2 show ?thesis by (simp add: facts)
qed

section \<open>Parsing\<close>

lemma init_returns:
  assumes "init c holder v st = (c', Inr a)"
  shows "\<exists>b. to_float v = Inr b \<and> \<not> flt (num v) (Finite 0)
           \<and> (st = ''active'' \<or> st = ''inactive'') \<and> c' = c + 1
           \<and> a = \<lparr>account_number = c + 1, account_holder = holder, balance = b,
                   status = st, transactions = [(''Account created'', PyFloat b, b, None)]\<rparr>"
  using assms by (auto simp: init_def split: if_splits sum.splits)

lemma init_float:
  "init c holder (PyFloat x) st =
     (if flt x (Finite 0) then (c, Inl (InvalidAmountError (CannotBeNegative (PyFloat x))))
      else if st \<noteq> ''active'' \<and> st \<noteq> ''inactive''
      then (c, Inl (InvalidAccountError StatusMsg))
      else (c + 1,
            Inr \<lparr>account_number = c + 1, account_holder = holder, balance = x,
                 status = st, transactions = [(''Account created'', PyFloat x, x, None)]\<rparr>))"
  by (simp add: init_def to_float_float)

lemma init_float_raises_unchanged: "init c holder (PyFloat x) st = (c', Inl e) \<Longrightarrow> c' = c"
  by (auto simp: init_float split: if_splits)

lemma from_string_fields:
  assumes "split CHR '';'' d = [name, bt, st]"
  shows "from_string tf c d =
     (case tf bt of
        None \<Rightarrow> (c, Inl (InvalidAccountError (FailedToParse ValueError)))
      | Some x \<Rightarrow>
          (case init c (strip name) (PyFloat x) (strip st) of
             (c', Inl exc) \<Rightarrow> (c', Inl (InvalidAccountError (FailedToParse exc)))
           | (c', Inr a) \<Rightarrow> (c', Inr a)))"
  using assms by (simp add: from_string_def)

lemma from_string_wrong_count:
  assumes "length (split CHR '';'' d) \<noteq> 3"
  shows "from_string tf c d = (c, Inl (InvalidAccountError (FailedToParse ValueError)))"
  using assms by (auto simp: from_string_def split: list.splits)

lemma three_fields:
  assumes "length xs = 3"
  shows "xs = [xs ! 0, xs ! 1, xs ! 2]"
  using assms by (auto simp: numeral_3_eq_3 length_Suc_conv)

lemma from_string_returns:
  assumes "from_string tf c d = (c', Inr a)"
  shows "length (split CHR '';'' d) = 3
       \<and> tf (split CHR '';'' d ! 1) = Some (balance a)
       \<and> init c (strip (split CHR '';'' d ! 0)) (PyFloat (balance a))
            (strip (split CHR '';'' d ! 2)) = (c', Inr a)"
proof -
  have len: "length (split CHR '';'' d) = 3"
    using assms from_string_wrong_count [of d tf c] by auto
  let ?f = "split CHR '';'' d"
  from three_fields [OF len] have f: "?f = [?f ! 0, ?f ! 1, ?f ! 2]" .
  from from_string_fields [OF f, of tf c] assms
  obtain x where x: "tf (?f ! 1) = Some x"
    by (cases "tf (?f ! 1)") auto
  from from_string_fields [OF f, of tf c] assms x
  have i: "init c (strip (?f ! 0)) (PyFloat x) (strip (?f ! 2)) = (c', Inr a)"
    by (auto split: prod.splits sum.splits)
  from init_returns [OF i] have "balance a = x" by (auto simp: to_float_float)
  with len x i show ?thesis by simp
qed

lemma from_string_raises:
  assumes "from_string tf c d = (c', Inl e)"
  shows "c' = c \<and> (\<exists>cause. e = InvalidAccountError (FailedToParse cause))"
proof (cases "length (split CHR '';'' d) = 3")
  case False
  with assms from_string_wrong_count [of d tf c] show ?thesis by auto
next
  case True
  let ?f = "split CHR '';'' d"
  from three_fields [OF True] have f: "?f = [?f ! 0, ?f ! 1, ?f ! 2]" .
  show ?thesis
  proof (cases "tf (?f ! 1)")
    case None
    with from_string_fields [OF f, of tf c] assms show ?thesis by auto
  next
    case (Some x)
    obtain c1 r1 where i: "init c (strip (?f ! 0)) (PyFloat x) (strip (?f ! 2)) = (c1, r1)"
      by (cases "init c (strip (?f ! 0)) (PyFloat x) (strip (?f ! 2))")
    show ?thesis
    proof (cases r1)
      case (Inl exc)
      with i have "c1 = c" by (simp add: init_float_raises_unchanged)
      with from_string_fields [OF f, of tf c] assms Some i Inl show ?thesis by auto
    next
      case (Inr a1)
      with from_string_fields [OF f, of tf c] assms Some i show ?thesis by auto
    qed
  qed
qed

text \<open>
  Claim C8. \<open>from_string\<close> splits its input at \<open>;\<close> into exactly three fields, trims the
  holder and the status, reads the balance with \<open>float\<close> and calls the constructor with
  the three values: whenever the input has three fields, the balance field reads as a
  float that is not negative and the trimmed status is \<open>active\<close> or \<open>inactive\<close>, the result
  is the account the constructor builds from them, and no other input gives an account.
  So \<open>from_string("Bob Wilson;750;active")\<close> is the account of \<open>Bob Wilson\<close> with balance
  750 and status \<open>active\<close>. Whenever it fails it raises one \<open>InvalidAccountError\<close> that
  wraps the cause, and the counter is untouched: a field count other than three and a
  balance that is no number wrap a \<open>ValueError\<close>, a negative balance wraps the
  constructor's \<open>InvalidAmountError\<close>, a status that is neither \<open>active\<close> nor \<open>inactive\<close>
  wraps the constructor's \<open>InvalidAccountError\<close>.
\<close>

theorem from_string_parses_or_wraps:
  "(tf ''750'' = Some (Finite 750) \<longrightarrow>
      from_string tf c ''Bob Wilson;750;active'' =
        (c + 1,
         Inr \<lparr>account_number = c + 1, account_holder = ''Bob Wilson'',
              balance = Finite 750, status = ''active'',
              transactions =
                [(''Account created'', PyFloat (Finite 750), Finite 750, None)]\<rparr>))
   \<and> (split CHR '';'' d = [name, bt, st] \<and> tf bt = Some x \<and> \<not> flt x (Finite 0)
        \<and> (strip st = ''active'' \<or> strip st = ''inactive'') \<longrightarrow>
        from_string tf c d =
          (c + 1,
           Inr \<lparr>account_number = c + 1, account_holder = strip name, balance = x,
                status = strip st,
                transactions = [(''Account created'', PyFloat x, x, None)]\<rparr>)
      \<and> from_string tf c d = init c (strip name) (PyFloat x) (strip st))
   \<and> (from_string tf c d = (c', Inr a) \<longrightarrow>
        length (split CHR '';'' d) = 3
      \<and> account_holder a = strip (split CHR '';'' d ! 0)
      \<and> tf (split CHR '';'' d ! 1) = Some (balance a)
      \<and> status a = strip (split CHR '';'' d ! 2)
      \<and> init c (account_holder a) (PyFloat (balance a)) (status a) = (c', Inr a))
   \<and> (from_string tf c d = (c', Inl e) \<longrightarrow>
        c' = c \<and> (\<exists>cause. e = InvalidAccountError (FailedToParse cause)))
   \<and> (length (split CHR '';'' d) \<noteq> 3 \<longrightarrow>
        from_string tf c d = (c, Inl (InvalidAccountError (FailedToParse ValueError))))
   \<and> (split CHR '';'' d = [name, bt, st] \<and> tf bt = None \<longrightarrow>
        from_string tf c d = (c, Inl (InvalidAccountError (FailedToParse ValueError))))
   \<and> (split CHR '';'' d = [name, bt, st] \<and> tf bt = Some x \<and> flt x (Finite 0) \<longrightarrow>
        from_string tf c d =
          (c, Inl (InvalidAccountError
                    (FailedToParse (InvalidAmountError (CannotBeNegative (PyFloat x)))))))
   \<and> (split CHR '';'' d = [name, bt, st] \<and> tf bt = Some x \<and> \<not> flt x (Finite 0)
        \<and> strip st \<noteq> ''active'' \<and> strip st \<noteq> ''inactive'' \<longrightarrow>
        from_string tf c d =
          (c, Inl (InvalidAccountError (FailedToParse (InvalidAccountError StatusMsg)))))"
proof (intro conjI impI)
  assume "tf ''750'' = Some (Finite 750)"
  then show "from_string tf c ''Bob Wilson;750;active'' =
        (c + 1,
         Inr \<lparr>account_number = c + 1, account_holder = ''Bob Wilson'',
              balance = Finite 750, status = ''active'',
              transactions =
                [(''Account created'', PyFloat (Finite 750), Finite 750, None)]\<rparr>)"
    by (simp add: from_string_def init_float strip_def is_space_def)
next
  assume h: "split CHR '';'' d = [name, bt, st] \<and> tf bt = Some x \<and> \<not> flt x (Finite 0)
        \<and> (strip st = ''active'' \<or> strip st = ''inactive'')"
  then show "from_string tf c d =
          (c + 1,
           Inr \<lparr>account_number = c + 1, account_holder = strip name, balance = x,
                status = strip st,
                transactions = [(''Account created'', PyFloat x, x, None)]\<rparr>)"
    by (auto simp: from_string_fields init_float)
  from h show "from_string tf c d = init c (strip name) (PyFloat x) (strip st)"
    by (auto simp: from_string_fields init_float)
next
  assume r: "from_string tf c d = (c', Inr a)"
  note fr = from_string_returns [OF r]
  from fr show "length (split CHR '';'' d) = 3" by simp
  from fr show "tf (split CHR '';'' d ! 1) = Some (balance a)" by simp
  from fr have i: "init c (strip (split CHR '';'' d ! 0)) (PyFloat (balance a))
            (strip (split CHR '';'' d ! 2)) = (c', Inr a)" by simp
  from init_returns [OF i] obtain y where
    a: "a = \<lparr>account_number = c + 1, account_holder = strip (split CHR '';'' d ! 0),
              balance = y, status = strip (split CHR '';'' d ! 2),
              transactions = [(''Account created'', PyFloat y, y, None)]\<rparr>"
    by blast
  from arg_cong [OF a, of account_holder]
  show h: "account_holder a = strip (split CHR '';'' d ! 0)" by simp
  from arg_cong [OF a, of status]
  show s: "status a = strip (split CHR '';'' d ! 2)" by simp
  from i show "init c (account_holder a) (PyFloat (balance a)) (status a) = (c', Inr a)"
    by (simp add: h s)
next
  assume r: "from_string tf c d = (c', Inl e)"
  from from_string_raises [OF r] show "c' = c"
    and "\<exists>cause. e = InvalidAccountError (FailedToParse cause)"
    by simp_all
next
  assume "length (split CHR '';'' d) \<noteq> 3"
  then show "from_string tf c d = (c, Inl (InvalidAccountError (FailedToParse ValueError)))"
    by (rule from_string_wrong_count)
next
  assume "split CHR '';'' d = [name, bt, st] \<and> tf bt = None"
  then show "from_string tf c d = (c, Inl (InvalidAccountError (FailedToParse ValueError)))"
    by (simp add: from_string_fields)
next
  assume "split CHR '';'' d = [name, bt, st] \<and> tf bt = Some x \<and> flt x (Finite 0)"
  then show "from_string tf c d =
          (c, Inl (InvalidAccountError
                    (FailedToParse (InvalidAmountError (CannotBeNegative (PyFloat x))))))"
    by (simp add: from_string_fields init_float)
next
  assume "split CHR '';'' d = [name, bt, st] \<and> tf bt = Some x \<and> \<not> flt x (Finite 0)
        \<and> strip st \<noteq> ''active'' \<and> strip st \<noteq> ''inactive''"
  then show "from_string tf c d =
          (c, Inl (InvalidAccountError (FailedToParse (InvalidAccountError StatusMsg))))"
    by (simp add: from_string_fields init_float)
qed

lemma float_of_digits_examples:
  "float_of_digits ''750'' = Some (Finite 750)"
  "float_of_digits ''500'' = Some (Finite 500)"
  "float_of_digits ''abc'' = None"
  "float_of_digits ''-5'' = Some (Finite (- 5))"
  "float_of_digits ''5'' = Some (Finite 5)"
  "float_of_digits ''nan'' = Some NaN"
  by (simp_all add: float_of_digits_def unsigned_float_def fl_small)

theorem from_string_parses_or_wraps_witness:
  "float_of_digits ''750'' = Some (Finite 750)
   \<and> from_string float_of_digits 1002 ''Bob Wilson;750;active'' =
       (1003,
        Inr \<lparr>account_number = 1003, account_holder = ''Bob Wilson'',
             balance = Finite 750, status = ''active'',
             transactions =
               [(''Account created'', PyFloat (Finite 750), Finite 750, None)]\<rparr>)
   \<and> split CHR '';'' '' Jane Smith ;500; inactive '' = ['' Jane Smith '', ''500'', '' inactive '']
   \<and> float_of_digits ''500'' = Some (Finite 500) \<and> \<not> flt (Finite 500) (Finite 0)
   \<and> strip '' inactive '' = ''inactive''
   \<and> from_string float_of_digits 1002 '' Jane Smith ;500; inactive '' =
       (1003,
        Inr \<lparr>account_number = 1003, account_holder = ''Jane Smith'',
             balance = Finite 500, status = ''inactive'',
             transactions =
               [(''Account created'', PyFloat (Finite 500), Finite 500, None)]\<rparr>)
   \<and> length (split CHR '';'' '' Jane Smith ;500; inactive '') = 3
   \<and> strip (split CHR '';'' '' Jane Smith ;500; inactive '' ! 0) = ''Jane Smith''
   \<and> float_of_digits (split CHR '';'' '' Jane Smith ;500; inactive '' ! 1) = Some (Finite 500)
   \<and> strip (split CHR '';'' '' Jane Smith ;500; inactive '' ! 2) = ''inactive''
   \<and> length (split CHR '';'' ''bad'') \<noteq> 3
   \<and> from_string float_of_digits 1002 ''bad'' =
       (1002, Inl (InvalidAccountError (FailedToParse ValueError)))
   \<and> (\<exists>cause. InvalidAccountError (FailedToParse ValueError) =
                InvalidAccountError (FailedToParse cause))
   \<and> split CHR '';'' ''Eve;abc;active'' = [''Eve'', ''abc'', ''active'']
   \<and> float_of_digits ''abc'' = None
   \<and> from_string float_of_digits 1002 ''Eve;abc;active'' =
       (1002, Inl (InvalidAccountError (FailedToParse ValueError)))
   \<and> split CHR '';'' ''Eve;-5;active'' = [''Eve'', ''-5'', ''active'']
   \<and> float_of_digits ''-5'' = Some (Finite (- 5)) \<and> flt (Finite (- 5)) (Finite 0)
   \<and> from_string float_of_digits 1002 ''Eve;-5;active'' =
       (1002, Inl (InvalidAccountError
                    (FailedToParse
                      (InvalidAmountError (CannotBeNegative (PyFloat (Finite (- 5))))))))
   \<and> split CHR '';'' ''Eve;5;closed'' = [''Eve'', ''5'', ''closed'']
   \<and> float_of_digits ''5'' = Some (Finite 5) \<and> \<not> flt (Finite 5) (Finite 0)
   \<and> strip ''closed'' \<noteq> ''active'' \<and> strip ''closed'' \<noteq> ''inactive''
   \<and> from_string float_of_digits 1002 ''Eve;5;closed'' =
       (1002, Inl (InvalidAccountError (FailedToParse (InvalidAccountError StatusMsg))))"
proof -
  let ?jane = "\<lparr>account_number = 1003, account_holder = ''Jane Smith'',
             balance = Finite 500, status = ''inactive'',
             transactions =
               [(''Account created'', PyFloat (Finite 500), Finite 500, None)]\<rparr>"
  let ?d = "'' Jane Smith ;500; inactive ''"
  note ps = from_string_parses_or_wraps
  note example = ps [THEN conjunct1, rule_format]
    and accepted = ps [THEN conjunct2, THEN conjunct1, rule_format]
    and returns = ps [THEN conjunct2, THEN conjunct2, THEN conjunct1, rule_format]
    and raises = ps [THEN conjunct2, THEN conjunct2, THEN conjunct2, THEN conjunct1,
        rule_format]
    and count = ps [THEN conjunct2, THEN conjunct2, THEN conjunct2, THEN conjunct2,
        THEN conjunct1, rule_format]
    and no_number = ps [THEN conjunct2, THEN conjunct2, THEN conjunct2, THEN conjunct2,
        THEN conjunct2, THEN conjunct1, rule_format]
    and negative = ps [THEN conjunct2, THEN conjunct2, THEN conjunct2, THEN conjunct2,
        THEN conjunct2, THEN conjunct2, THEN conjunct1, rule_format]
    and bad_status = ps [THEN conjunct2, THEN conjunct2, THEN conjunct2, THEN conjunct2,
        THEN conjunct2, THEN conjunct2, THEN conjunct2, rule_format]
  note fd = float_of_digits_examples
  from example [where tf = float_of_digits and c = 1002, OF fd(1)]
  have 1: "from_string float_of_digits 1002 ''Bob Wilson;750;active'' =
       (1003,
        Inr \<lparr>account_number = 1003, account_holder = ''Bob Wilson'',
             balance = Finite 750, status = ''active'',
             transactions =
               [(''Account created'', PyFloat (Finite 750), Finite 750, None)]\<rparr>)"
    by simp
  have h2: "split CHR '';'' ?d = ['' Jane Smith '', ''500'', '' inactive '']
      \<and> float_of_digits ''500'' = Some (Finite 500) \<and> \<not> flt (Finite 500) (Finite 0)
      \<and> (strip '' inactive '' = ''active'' \<or> strip '' inactive '' = ''inactive'')"
    and s2: "strip '' inactive '' = ''inactive''" "strip '' Jane Smith '' = ''Jane Smith''"
    by (simp_all add: fd strip_def is_space_def)
  note acc = accepted [where tf = float_of_digits and c = 1002, OF h2, unfolded s2]
  from acc [THEN conjunct1]
  have 2: "from_string float_of_digits 1002 ?d = (1003, Inr ?jane)"
    by simp
  from returns [OF 2]
  have 3: "length (split CHR '';'' ?d) = 3"
    "strip (split CHR '';'' ?d ! 0) = ''Jane Smith''"
    "float_of_digits (split CHR '';'' ?d ! 1) = Some (Finite 500)"
    "strip (split CHR '';'' ?d ! 2) = ''inactive''"
    by (simp_all add: s2)
  have h4: "length (split CHR '';'' ''bad'') \<noteq> 3"
    by simp
  from count [OF h4, of float_of_digits 1002]
  have 4: "from_string float_of_digits 1002 ''bad'' =
       (1002, Inl (InvalidAccountError (FailedToParse ValueError)))" .
  from raises [OF 4]
  have 5: "\<exists>cause. InvalidAccountError (FailedToParse ValueError) =
                InvalidAccountError (FailedToParse cause)"
    by simp
  have h6: "split CHR '';'' ''Eve;abc;active'' = [''Eve'', ''abc'', ''active'']
      \<and> float_of_digits ''abc'' = None"
    by (simp add: fd)
  from no_number [where tf = float_of_digits and c = 1002, OF h6]
  have 6: "from_string float_of_digits 1002 ''Eve;abc;active'' =
       (1002, Inl (InvalidAccountError (FailedToParse ValueError)))" .
  have h7: "split CHR '';'' ''Eve;-5;active'' = [''Eve'', ''-5'', ''active'']
      \<and> float_of_digits ''-5'' = Some (Finite (- 5)) \<and> flt (Finite (- 5)) (Finite 0)"
    by (simp add: fd)
  from negative [where tf = float_of_digits and c = 1002, OF h7]
  have 7: "from_string float_of_digits 1002 ''Eve;-5;active'' =
       (1002, Inl (InvalidAccountError
                    (FailedToParse
                      (InvalidAmountError (CannotBeNegative (PyFloat (Finite (- 5))))))))" .
  have h8: "split CHR '';'' ''Eve;5;closed'' = [''Eve'', ''5'', ''closed'']
      \<and> float_of_digits ''5'' = Some (Finite 5) \<and> \<not> flt (Finite 5) (Finite 0)
      \<and> strip ''closed'' \<noteq> ''active'' \<and> strip ''closed'' \<noteq> ''inactive''"
    by (simp add: fd strip_def is_space_def)
  from bad_status [where tf = float_of_digits and c = 1002, OF h8]
  have 8: "from_string float_of_digits 1002 ''Eve;5;closed'' =
       (1002, Inl (InvalidAccountError (FailedToParse (InvalidAccountError StatusMsg))))" .
  from fd 1 h2 s2 2 3 h4 4 5 h6 6 h7 7 h8 8 show ?thesis
    by (intro conjI) simp_all
qed

section \<open>What every call preserves\<close>

lemma float_limit_positive: "0 < float_limit"
  using million_below_limit by linarith

lemma to_float_num: "to_float v = Inr f \<Longrightarrow> num v = f"
  by (cases v) (auto simp: to_float_def split: if_splits)

lemma fadd_not_negative:
  assumes "\<not> flt b (Finite 0)" and "\<not> fle f (Finite 0)"
  shows "\<not> flt (fadd b f) (Finite 0)"
  using assms float_limit_positive by (cases b; cases f) (auto simp: fl_def)

lemma fsub_not_negative:
  assumes "\<not> flt b (Finite 0)" and "\<not> fle f (Finite 0)" and "\<not> flt b f"
  shows "\<not> flt (fsub b f) (Finite 0)"
  using assms float_limit_positive by (cases b; cases f) (auto simp: fl_def fsub_def)

lemma deposit_preserves:
  assumes "deposit a v = (a', r)"
  shows "account_number a' = account_number a"
    and "\<not> flt (balance a) (Finite 0) \<Longrightarrow> \<not> flt (balance a') (Finite 0)"
proof -
  have "account_number a' = account_number a
      \<and> (\<not> flt (balance a) (Finite 0) \<longrightarrow> \<not> flt (balance a') (Finite 0))"
  proof (cases r)
    case (Inl e)
    with assms have "a' = a" by (simp add: deposit_raises_unchanged)
    then show ?thesis by simp
  next
    case (Inr b)
    from deposit_returns [OF assms [unfolded Inr]]
    obtain f where f: "status a = ''active''" "\<not> fle (num v) (Finite 0)" "to_float v = Inr f"
      by blast
    from f(2,3) have "\<not> fle f (Finite 0)" by (simp add: to_float_num)
    with assms f show ?thesis by (auto simp: deposit_ok fadd_not_negative)
  qed
  then show "account_number a' = account_number a"
    and "\<not> flt (balance a) (Finite 0) \<Longrightarrow> \<not> flt (balance a') (Finite 0)" by simp_all
qed

lemma withdraw_preserves:
  assumes "withdraw a v = (a', r)"
  shows "account_number a' = account_number a"
    and "\<not> flt (balance a) (Finite 0) \<Longrightarrow> \<not> flt (balance a') (Finite 0)"
proof -
  have "account_number a' = account_number a
      \<and> (\<not> flt (balance a) (Finite 0) \<longrightarrow> \<not> flt (balance a') (Finite 0))"
  proof (cases r)
    case (Inl e)
    with assms have "a' = a" by (simp add: withdraw_raises_unchanged)
    then show ?thesis by simp
  next
    case (Inr b)
    from withdraw_returns [OF assms [unfolded Inr]]
    obtain f where f: "status a = ''active''" "\<not> fle (num v) (Finite 0)"
      "\<not> flt (balance a) (num v)" "to_float v = Inr f"
      by blast
    from f(2,3,4) have "\<not> fle f (Finite 0)" "\<not> flt (balance a) f"
      by (simp_all add: to_float_num)
    with assms f show ?thesis by (auto simp: withdraw_ok fsub_not_negative)
  qed
  then show "account_number a' = account_number a"
    and "\<not> flt (balance a) (Finite 0) \<Longrightarrow> \<not> flt (balance a') (Finite 0)" by simp_all
qed

lemma set_balance_preserves:
  "account_number (fst (set_balance a v)) = account_number a"
  "\<not> flt (balance a) (Finite 0) \<Longrightarrow> \<not> flt (balance (fst (set_balance a v))) (Finite 0)"
  by (auto simp: set_balance_def to_float_num split: sum.splits)

lemma set_status_preserves:
  "account_number (fst (set_status a v)) = account_number a"
  "balance (fst (set_status a v)) = balance a"
  by (simp_all add: set_status_def)

lemma transfer_preserves:
  assumes t: "transfer s A v t = (s', r)"
  shows "account_number (s' k) = account_number (s k)"
    and "\<lbrakk>\<not> flt (balance (s A)) (Finite 0);
          \<forall>B. t = Obj B \<longrightarrow> \<not> flt (balance (s B)) (Finite 0);
          \<not> flt (balance (s k)) (Finite 0)\<rbrakk>
         \<Longrightarrow> \<not> flt (balance (s' k)) (Finite 0)"
proof -
  have "account_number (s' k) = account_number (s k)
      \<and> (\<not> flt (balance (s A)) (Finite 0)
           \<and> (\<forall>B. t = Obj B \<longrightarrow> \<not> flt (balance (s B)) (Finite 0))
           \<and> \<not> flt (balance (s k)) (Finite 0)
           \<longrightarrow> \<not> flt (balance (s' k)) (Finite 0))"
  proof (cases r)
    case (Inl e)
    from transfer_raises_cases [OF t [unfolded Inl]]
    show ?thesis
    proof
      assume "s' = s"
      then show ?thesis by simp
    next
      assume "\<exists>tgt f. t = Obj tgt \<and> A \<noteq> tgt \<and> status (s tgt) \<noteq> ''active''
            \<and> \<not> fle (num v) (Finite 0) \<and> \<not> flt (balance (s A)) (num v)
            \<and> to_float v = Inr f
            \<and> s' = s(A := (s A)\<lparr>balance := fsub (balance (s A)) f,
                  transactions := transactions (s A) @
                    [(''Withdraw'', v, fsub (balance (s A)) f, None)]\<rparr>)"
      then obtain f where f: "\<not> fle (num v) (Finite 0)" "\<not> flt (balance (s A)) (num v)"
        "to_float v = Inr f"
        and s': "s' = s(A := (s A)\<lparr>balance := fsub (balance (s A)) f,
                  transactions := transactions (s A) @
                    [(''Withdraw'', v, fsub (balance (s A)) f, None)]\<rparr>)"
        by blast
      from f have "\<not> fle f (Finite 0)" "\<not> flt (balance (s A)) f"
        by (simp_all add: to_float_num)
      then have "\<not> flt (fsub (balance (s A)) f) (Finite 0)"
        if "\<not> flt (balance (s A)) (Finite 0)"
        using that by (intro fsub_not_negative)
      then show ?thesis by (cases "k = A") (simp_all add: s')
    qed
  next
    case (Inr ok)
    from transfer_returns [OF t [unfolded Inr]]
    obtain B f where x: "t = Obj B" "status (s A) = ''active''" "status (s B) = ''active''"
      "\<not> fle (num v) (Finite 0)" "\<not> flt (balance (s A)) (num v)" "to_float v = Inr f"
      by blast
    from x have f: "\<not> fle f (Finite 0)" "\<not> flt (balance (s A)) f"
      by (simp_all add: to_float_num)
    have sub: "\<not> flt (fsub (balance (s A)) f) (Finite 0)"
      if "\<not> flt (balance (s A)) (Finite 0)"
      using that f by (rule fsub_not_negative)
    have add: "\<not> flt (fadd c f) (Finite 0)" if "\<not> flt c (Finite 0)" for c
      using that f(1) by (rule fadd_not_negative)
    show ?thesis
    proof (cases "A = B")
      case True
      with transfer_ok_self [of s A v f] x t
      have s': "s' = s(A := (s A)\<lparr>balance := fadd (fsub (balance (s A)) f) f,
          transactions := transactions (s A) @
            [(''Withdraw'', v, fsub (balance (s A)) f, None),
             (''Deposit'', v, fadd (fsub (balance (s A)) f) f, None),
             (''Transfer to'', v, fadd (fsub (balance (s A)) f) f,
              Some (account_number (s A))),
             (''Transfer from'', v, fadd (fsub (balance (s A)) f) f,
              Some (account_number (s A)))]\<rparr>)"
        by simp
      show ?thesis
      proof (cases "k = A")
        case True
        then show ?thesis using sub add by (simp add: s')
      next
        case False
        then show ?thesis by (simp add: s')
      qed
    next
      case False
      with transfer_ok_distinct [of A B s v f] x t
      have s': "s' = s(A := (s A)\<lparr>balance := fsub (balance (s A)) f,
          transactions := transactions (s A) @
            [(''Withdraw'', v, fsub (balance (s A)) f, None),
             (''Transfer to'', v, fsub (balance (s A)) f, Some (account_number (s B)))]\<rparr>,
       B := (s B)\<lparr>balance := fadd (balance (s B)) f,
          transactions := transactions (s B) @
            [(''Deposit'', v, fadd (balance (s B)) f, None),
             (''Transfer from'', v, fadd (balance (s B)) f,
              Some (account_number (s A)))]\<rparr>)"
        by simp
      consider "k = A" | "k = B" | "k \<noteq> A" "k \<noteq> B" by blast
      then show ?thesis
      proof cases
        case 1
        with False show ?thesis using sub by (simp add: s')
      next
        case 2
        with False show ?thesis using add x(1) by (simp add: s')
      next
        case 3
        then show ?thesis by (simp add: s')
      qed
    qed
  qed
  then show "account_number (s' k) = account_number (s k)"
    and "\<lbrakk>\<not> flt (balance (s A)) (Finite 0);
          \<forall>B. t = Obj B \<longrightarrow> \<not> flt (balance (s B)) (Finite 0);
          \<not> flt (balance (s k)) (Finite 0)\<rbrakk>
         \<Longrightarrow> \<not> flt (balance (s' k)) (Finite 0)"
    by simp_all
qed

lemma deposit_fst_preserves:
  "account_number (fst (deposit a v)) = account_number a"
  "\<not> flt (balance a) (Finite 0) \<Longrightarrow> \<not> flt (balance (fst (deposit a v))) (Finite 0)"
  by (rule deposit_preserves [OF prod.collapse [symmetric]])+

lemma withdraw_fst_preserves:
  "account_number (fst (withdraw a v)) = account_number a"
  "\<not> flt (balance a) (Finite 0) \<Longrightarrow> \<not> flt (balance (fst (withdraw a v))) (Finite 0)"
  by (rule withdraw_preserves [OF prod.collapse [symmetric]])+

text \<open>The three ways of creating an account.\<close>

lemma init_creates:
  assumes "init c holder v st = (c', Inr a)"
  shows "c' = c + 1" "account_number a = c + 1" "\<not> flt (balance a) (Finite 0)"
proof -
  from init_returns [OF assms] obtain b where
    b: "to_float v = Inr b" "\<not> flt (num v) (Finite 0)" "c' = c + 1"
    and a: "a = \<lparr>account_number = c + 1, account_holder = holder, balance = b,
                   status = st, transactions = [(''Account created'', PyFloat b, b, None)]\<rparr>"
    by blast
  from b show "c' = c + 1" by simp
  from a show "account_number a = c + 1" by simp
  from a b show "\<not> flt (balance a) (Finite 0)" by (simp add: to_float_num)
qed

lemma init_raises: "init c holder v st = (c', Inl e) \<Longrightarrow> c' = c \<or> c' = c + 1"
  by (auto simp: init_def split: if_splits sum.splits)

lemma from_string_creates:
  assumes "from_string tf c d = (c', Inr a)"
  shows "c' = c + 1" "account_number a = c + 1" "\<not> flt (balance a) (Finite 0)"
proof -
  from from_string_returns [OF assms]
  have "init c (strip (split CHR '';'' d ! 0)) (PyFloat (balance a))
            (strip (split CHR '';'' d ! 2)) = (c', Inr a)" by simp
  from init_creates [OF this]
  show "c' = c + 1" "account_number a = c + 1" "\<not> flt (balance a) (Finite 0)"
    by simp_all
qed

lemma alloc_keeps:
  assumes ok: "\<And>c' a. res = (c', Inr a) \<Longrightarrow>
                 c' = account_counter w + 1 \<and> account_number a = account_counter w + 1
                 \<and> \<not> flt (balance a) (Finite 0)"
    and bad: "\<And>c' e. res = (c', Inl e) \<Longrightarrow>
                 c' = account_counter w \<or> c' = account_counter w + 1"
  shows "never_negative w \<Longrightarrow> never_negative (alloc w res)"
    and "increasing w \<Longrightarrow> increasing (alloc w res)"
proof -
  obtain c' r where res: "res = (c', r)" by (cases res)
  show "never_negative w \<Longrightarrow> never_negative (alloc w res)"
  proof (cases r)
    case (Inl e)
    then show "never_negative w \<Longrightarrow> never_negative (alloc w res)"
      by (simp add: res alloc_def never_negative_def)
  next
    case (Inr a)
    with ok [of c' a] res show "never_negative w \<Longrightarrow> never_negative (alloc w res)"
      by (auto simp: alloc_def never_negative_def less_Suc_eq)
  qed
  show "increasing w \<Longrightarrow> increasing (alloc w res)"
  proof (cases r)
    case (Inl e)
    with bad [of c' e] res show "increasing w \<Longrightarrow> increasing (alloc w res)"
      by (fastforce simp: alloc_def increasing_def)
  next
    case (Inr a)
    with ok [of c' a] res show "increasing w \<Longrightarrow> increasing (alloc w res)"
      by (fastforce simp: alloc_def increasing_def less_Suc_eq)
  qed
qed

lemma on_object_keeps:
  assumes "\<And>a. account_number (f a) = account_number a"
    and "\<And>a. \<not> flt (balance a) (Finite 0) \<Longrightarrow> \<not> flt (balance (f a)) (Finite 0)"
  shows "never_negative w \<Longrightarrow> never_negative (on_object w r f)"
    and "increasing w \<Longrightarrow> increasing (on_object w r f)"
  using assms by (auto simp: on_object_def never_negative_def increasing_def)

lemma exec_keeps:
  shows "never_negative w \<Longrightarrow> never_negative (exec tf w cmd)"
    and "increasing w \<Longrightarrow> increasing (exec tf w cmd)"
proof -
  have "(never_negative w \<longrightarrow> never_negative (exec tf w cmd))
      \<and> (increasing w \<longrightarrow> increasing (exec tf w cmd))"
  proof (cases cmd)
    case (New holder b st)
    show ?thesis unfolding New exec.simps
      by (intro conjI impI alloc_keeps) (auto dest: init_creates init_raises)
  next
    case (FromBalance holder b)
    show ?thesis unfolding FromBalance exec.simps
      by (intro conjI impI alloc_keeps)
        (auto dest: init_creates init_raises simp: from_balance_def)
  next
    case (FromString d)
    show ?thesis unfolding FromString exec.simps
      by (intro conjI impI alloc_keeps) (auto dest: from_string_creates from_string_raises)
  next
    case (Deposit r v)
    show ?thesis unfolding Deposit exec.simps
      by (intro conjI impI on_object_keeps) (auto simp: deposit_fst_preserves)
  next
    case (Withdraw r v)
    show ?thesis unfolding Withdraw exec.simps
      by (intro conjI impI on_object_keeps) (auto simp: withdraw_fst_preserves)
  next
    case (SetBalance r v)
    show ?thesis unfolding SetBalance exec.simps
      by (intro conjI impI on_object_keeps) (auto simp: set_balance_preserves)
  next
    case (SetStatus r v)
    show ?thesis unfolding SetStatus exec.simps
      by (intro conjI impI on_object_keeps) (auto simp: set_status_preserves)
  next
    case (Transfer r v t)
    let ?s' = "fst (transfer (objects w) r v t)"
    have num: "account_number (?s' k) = account_number (objects w k)" for k
      by (rule transfer_preserves(1) [OF prod.collapse [symmetric]])
    have bal: "\<not> flt (balance (?s' k)) (Finite 0)"
      if "never_negative w" "r < allocated w" "known w t" "k < allocated w" for k
    proof (rule transfer_preserves(2) [OF prod.collapse [symmetric]])
      from that show "\<not> flt (balance (objects w r)) (Finite 0)"
        and "\<not> flt (balance (objects w k)) (Finite 0)"
        by (simp_all add: never_negative_def)
      from that show "\<forall>B. t = Obj B \<longrightarrow> \<not> flt (balance (objects w B)) (Finite 0)"
        by (auto simp: never_negative_def known_def)
    qed
    have "never_negative (exec tf w cmd)" if "never_negative w"
    proof (cases "r < allocated w \<and> known w t")
      case True
      with that bal show ?thesis by (simp add: Transfer never_negative_def)
    next
      case False
      with that show ?thesis by (auto simp: Transfer)
    qed
    moreover have "increasing (exec tf w cmd)" if "increasing w"
      using that by (simp add: Transfer increasing_def num)
    ultimately show ?thesis by simp
  qed
  then show "never_negative w \<Longrightarrow> never_negative (exec tf w cmd)"
    and "increasing w \<Longrightarrow> increasing (exec tf w cmd)" by simp_all
qed

lemma run_keeps:
  shows "never_negative w \<Longrightarrow> never_negative (run tf w cmds)"
    and "increasing w \<Longrightarrow> increasing (run tf w cmds)"
proof -
  have "(never_negative w \<longrightarrow> never_negative (foldl (exec tf) w cmds))
      \<and> (increasing w \<longrightarrow> increasing (foldl (exec tf) w cmds))"
    by (induction cmds arbitrary: w) (auto intro: exec_keeps)
  then show "never_negative w \<Longrightarrow> never_negative (run tf w cmds)"
    and "increasing w \<Longrightarrow> increasing (run tf w cmds)"
    by (simp_all add: run_def)
qed

lemma fresh_invariants: "never_negative (fresh s)" "increasing (fresh s)"
  by (simp_all add: fresh_def never_negative_def increasing_def)

section \<open>The balance is never negative, but it can be NaN\<close>

text \<open>
  In a process that starts with no accounts, no sequence of calls, returning or raising,
  makes a balance negative: \<open>balance < 0\<close> is false for every account.
\<close>

lemma balance_not_negative_in_any_run:
  "\<forall>k<allocated (run tf (fresh s0) cmds).
     \<not> flt (balance (objects (run tf (fresh s0) cmds) k)) (Finite 0)"
  using run_keeps(1) [OF fresh_invariants(1)] by (simp add: never_negative_def)

text \<open>
  Claim C5. The claim is that \<open>balance >= 0\<close> holds after construction and after every
  operation. The code checks \<open>initial_balance < 0\<close> and \<open>new_value < 0\<close>, which are false
  for NaN, so NaN is accepted as a balance: \<open>BankAccount.from_string("Bob;nan;active")\<close>
  and \<open>BankAccount("Bob", float("nan"))\<close> return an account whose balance is NaN, and
  \<open>account1.balance = float("nan")\<close> sets it. For that balance \<open>balance >= 0\<close> is false.
\<close>

theorem nan_balance_is_accepted:
  "float_of_digits ''nan'' = Some NaN
   \<and> from_string float_of_digits 1000 ''Bob;nan;active'' =
       (1001,
        Inr \<lparr>account_number = 1001, account_holder = ''Bob'', balance = NaN,
             status = ''active'',
             transactions = [(''Account created'', PyFloat NaN, NaN, None)]\<rparr>)
   \<and> init 1000 ''Bob'' (PyFloat NaN) ''active'' =
       (1001,
        Inr \<lparr>account_number = 1001, account_holder = ''Bob'', balance = NaN,
             status = ''active'',
             transactions = [(''Account created'', PyFloat NaN, NaN, None)]\<rparr>)
   \<and> set_balance account1 (PyFloat NaN) = (account1\<lparr>balance := NaN\<rparr>, Inr ())
   \<and> \<not> fle (Finite 0) NaN"
  by (simp add: float_of_digits_examples from_string_def init_float strip_def is_space_def
      set_balance_def to_float_float)

section \<open>Account numbers\<close>

text \<open>
  In a process that starts with no accounts, whatever calls are made, the account
  numbers are above 1000, the account created later has the greater number, and no two
  accounts share a number.
\<close>

lemma account_numbers_increase_in_any_run:
  "(\<forall>k<allocated (run tf (fresh s0) cmds).
      1000 < account_number (objects (run tf (fresh s0) cmds) k))
   \<and> (\<forall>j<allocated (run tf (fresh s0) cmds). \<forall>i<j.
        account_number (objects (run tf (fresh s0) cmds) i)
          < account_number (objects (run tf (fresh s0) cmds) j))"
  using run_keeps(2) [OF fresh_invariants(2)] by (simp add: increasing_def)

text \<open>
  Claim C9. The claim is that the first account created in a process has the number
  1001, the second 1002, and so on. The constructor increments the counter before it
  evaluates \<open>float(initial_balance)\<close>, which raises \<open>OverflowError\<close> for an \<open>int\<close> beyond the
  range of a float: \<open>BankAccount("x", 10**309)\<close> fails and has used up 1001, so the first
  account created afterwards, \<open>BankAccount("John Doe", 1000)\<close>, has the number 1002.
\<close>

theorem failed_construction_uses_up_a_number:
  "account_counter (fresh example_objects) = 1000
   \<and> init 1000 ''x'' (PyInt (10 ^ 309)) ''active'' = (1001, Inl OverflowError)
   \<and> allocated (run float_of_digits (fresh example_objects) overflow_script) = 1
   \<and> account_number (objects (run float_of_digits (fresh example_objects) overflow_script) 0)
       = 1002
   \<and> account_holder (objects (run float_of_digits (fresh example_objects) overflow_script) 0)
       = ''John Doe''"
proof -
  have big: "to_float (PyInt (10 ^ 309)) = Inl OverflowError"
    by (simp add: to_float_def float_limit_def)
  from big have 1: "init 1000 ''x'' (PyInt (10 ^ 309)) ''active'' = (1001, Inl OverflowError)"
    by (simp add: init_def)
  have 2: "init 1001 ''John Doe'' (PyInt 1000) ''active'' =
      (1002,
       Inr \<lparr>account_number = 1002, account_holder = ''John Doe'', balance = Finite 1000,
            status = ''active'',
            transactions = [(''Account created'', PyFloat (Finite 1000), Finite 1000, None)]\<rparr>)"
    by (simp add: init_def to_float_small)
  from 1 2 show ?thesis
    by (simp add: run_def overflow_script_def alloc_def fresh_def)
qed

end
